theory Spec2Isabelle
  imports Complex_Main "HOL-Library.Log_Nat"
begin

section \<open>JavaScript values\<close>

text \<open>
  Request bodies are parsed JSON. A property that is absent reads as \<open>undefined\<close>, so the value
  type has that constructor too. A number is the rational value of a finite double; the
  arithmetic on numbers rounds, see below. An object holds each of its keys once.
\<close>

datatype jsval =
    JUndefined
  | JNull
  | JBool bool
  | JNum rat
  | JStr string
  | JArr "jsval list"
  | JObj "(string \<times> jsval) list"

text \<open>Exceptions thrown inside the two servers, named by what raises them.\<close>

datatype exn =
    ProductMismatch         \<comment> \<open>thrown by processPurchase: the product name does not match\<close>
  | InsufficientInventory   \<comment> \<open>thrown by the purchase mutator: not enough stock\<close>
  | LockContention          \<comment> \<open>thrown by updateAssets: the asset file is locked, retry later\<close>
  | IOError                 \<comment> \<open>thrown by readJSON / writeJSON / unlinkSync\<close>
  | TypeError               \<comment> \<open>property access on null or undefined\<close>
  | RequestFailed           \<comment> \<open>rejected by axios: timeout, no connection, status outside 2xx\<close>

text \<open>\<open>!v\<close> is \<open>\<not> truthy v\<close>.\<close>

fun truthy :: "jsval \<Rightarrow> bool" where
  "truthy JUndefined = False"
| "truthy JNull = False"
| "truthy (JBool b) = b"
| "truthy (JNum r) = (r \<noteq> 0)"
| "truthy (JStr s) = (s \<noteq> [])"
| "truthy (JArr _) = True"
| "truthy (JObj _) = True"

text \<open>
  Reading one of the request keys (\<open>product\<close>, \<open>qty\<close>, \<open>ip\<close>, \<open>port\<close>, \<open>products\<close>,
  \<open>priceYen\<close>) of a value: on \<open>null\<close> and \<open>undefined\<close> it throws, on an object it is the
  stored value or \<open>undefined\<close>, on any other value it is \<open>undefined\<close>.
\<close>

fun get_prop :: "jsval \<Rightarrow> string \<Rightarrow> exn + jsval" where
  "get_prop JUndefined k = Inl TypeError"
| "get_prop JNull k = Inl TypeError"
| "get_prop (JObj kvs) k = Inr (case map_of kvs k of None \<Rightarrow> JUndefined | Some v \<Rightarrow> v)"
| "get_prop _ k = Inr JUndefined"

section \<open>Double arithmetic\<close>

text \<open>
  JavaScript numbers are IEEE 754 doubles: the result of \<open>+\<close>, \<open>-\<close> and \<open>*\<close> is the exact
  result rounded to the nearest double, ties to the even significand. A double is an integer
  of magnitude below \<open>2^53\<close> times a power of two with exponent at least \<open>-1074\<close>. Results
  whose magnitude reaches \<open>2^1024\<close>, where JavaScript yields \<open>Infinity\<close>, are outside this
  model, and so is the sign of zero.
\<close>

text \<open>Rounding a rational to the nearest integer, ties to even.\<close>

definition round_half_even :: "rat \<Rightarrow> int" where
  "round_half_even s =
     (if s - of_int \<lfloor>s\<rfloor> < 1 / 2 then \<lfloor>s\<rfloor>
      else if 1 / 2 < s - of_int \<lfloor>s\<rfloor> then \<lfloor>s\<rfloor> + 1
      else if even \<lfloor>s\<rfloor> then \<lfloor>s\<rfloor> else \<lfloor>s\<rfloor> + 1)"

text \<open>
  The binary exponent of a positive rational \<open>a\<close>, the \<open>e\<close> with \<open>2^e \<le> a < 2^(e+1)\<close>: the
  difference of the bit lengths of numerator and denominator, or one less.
\<close>

definition binary_exponent :: "rat \<Rightarrow> int" where
  "binary_exponent a =
     (case quotient_of a of
        (p, d) \<Rightarrow> if 2 powi (bitlen p - bitlen d) \<le> a then bitlen p - bitlen d
                  else bitlen p - bitlen d - 1)"

text \<open>
  Rounding to a double: the significand has 53 bits, so the spacing of the doubles around
  \<open>x\<close> is \<open>2^(e - 52)\<close> for the binary exponent \<open>e\<close> of \<open>\<bar>x\<bar>\<close>, and \<open>2^(-1074)\<close> for the
  subnormal numbers.
\<close>

definition round_double :: "rat \<Rightarrow> rat" where
  "round_double x =
     (if x = 0 then 0
      else sgn x *
           of_int (round_half_even (\<bar>x\<bar> / 2 powi max (binary_exponent \<bar>x\<bar> - 52) (- 1074))) *
           2 powi max (binary_exponent \<bar>x\<bar> - 52) (- 1074))"

definition js_add :: "rat \<Rightarrow> rat \<Rightarrow> rat" where
  "js_add x y = round_double (x + y)"

definition js_sub :: "rat \<Rightarrow> rat \<Rightarrow> rat" where
  "js_sub x y = round_double (x - y)"

definition js_mul :: "rat \<Rightarrow> rat \<Rightarrow> rat" where
  "js_mul x y = round_double (x * y)"

section \<open>The store: my-store.js\<close>

subsection \<open>Data\<close>

datatype server_state = INIT | CONFIGURED | REGISTERED | ACTIVE

record product =
  name :: string
  priceYen :: rat

record inventory_item =
  item_product :: string
  item_qty :: rat

record assets =
  capitalYen :: rat
  procurementPts :: rat
  inventory :: "inventory_item list"
  collection :: "jsval list"

datatype trade_id = TradeId nat nat
  \<comment> \<open>\<open>trade-${Date.now()}-${Math.floor(Math.random() * 1000)}\<close>\<close>

record transaction =
  tx_tradeId :: trade_id
  tx_buyer :: string
  tx_seller :: string
  tx_product :: jsval
  tx_qty :: rat
  tx_price :: rat

record logged_transaction = transaction +
  ts :: nat

record purchase_result =
  success :: bool
  res_tradeId :: trade_id
  res_product :: jsval
  res_qty :: rat
  totalPrice :: rat

datatype path = ASSETS_FILE | TRANSACTIONS_FILE | ASSETS_LOCK_FILE

datatype fs_op = OpenLock | UnlinkLock | ReadFile path | WriteFile path

text \<open>
  The values the handler reads from its surroundings: the two clock readings
  (\<open>Date.now()\<close> when the trade identifier is made and when the transaction is stamped) and
  \<open>Math.floor(Math.random() * 1000)\<close>.
\<close>

record ambient =
  dateNow :: nat
  randomSuffix :: nat
  dateNowLog :: nat

text \<open>
  The store process and its data directory. \<open>lock_file\<close> says whether the lock file exists;
  a file that is missing or unreadable is \<open>None\<close>; \<open>write_fails\<close> says which files
  \<open>writeJSON\<close> cannot write and \<open>unlink_fails\<close> whether the removal of the lock file
  fails though the file is there; \<open>trace\<close> lists the file operations attempted so far.
\<close>

record store =
  serverState :: server_state
  myProduct :: "product option"
  myIpAddress :: string
  lock_file :: bool
  assets_file :: "assets option"
  transactions_file :: "logged_transaction list option"
  write_fails :: "path \<Rightarrow> bool"
  unlink_fails :: bool
  trace :: "fs_op list"

definition log_op :: "fs_op \<Rightarrow> store \<Rightarrow> store" where
  "log_op ev w = w\<lparr>trace := trace w @ [ev]\<rparr>"

subsection \<open>File access\<close>

text \<open>
  Modelled from the spec: \<open>db.js\<close> (\<open>readJSON\<close>, \<open>writeJSON\<close>) is not among the sources; the
  spec calls it a generic structured-file read/write helper whose failure is a
  PersistenceFailure. Reading throws when the file is missing or unreadable; writing throws
  when the file cannot be written and otherwise replaces the whole content.
\<close>

definition readJSON_assets :: "store \<Rightarrow> (exn + assets) \<times> store" where
  "readJSON_assets w =
     (case assets_file w of
        None \<Rightarrow> (Inl IOError, log_op (ReadFile ASSETS_FILE) w)
      | Some a \<Rightarrow> (Inr a, log_op (ReadFile ASSETS_FILE) w))"

definition writeJSON_assets :: "assets \<Rightarrow> store \<Rightarrow> (exn + unit) \<times> store" where
  "writeJSON_assets a w =
     (if write_fails w ASSETS_FILE then (Inl IOError, log_op (WriteFile ASSETS_FILE) w)
      else (Inr (), log_op (WriteFile ASSETS_FILE) (w\<lparr>assets_file := Some a\<rparr>)))"

definition readJSON_transactions :: "store \<Rightarrow> (exn + logged_transaction list) \<times> store" where
  "readJSON_transactions w =
     (case transactions_file w of
        None \<Rightarrow> (Inl IOError, log_op (ReadFile TRANSACTIONS_FILE) w)
      | Some txs \<Rightarrow> (Inr txs, log_op (ReadFile TRANSACTIONS_FILE) w))"

definition writeJSON_transactions ::
  "logged_transaction list \<Rightarrow> store \<Rightarrow> (exn + unit) \<times> store" where
  "writeJSON_transactions txs w =
     (if write_fails w TRANSACTIONS_FILE
      then (Inl IOError, log_op (WriteFile TRANSACTIONS_FILE) w)
      else (Inr (), log_op (WriteFile TRANSACTIONS_FILE) (w\<lparr>transactions_file := Some txs\<rparr>)))"

text \<open>\<open>fs.openSync(ASSETS_LOCK_FILE, 'wx')\<close>: creates the file, throws when it exists.\<close>

definition openSync_wx :: "store \<Rightarrow> (exn + unit) \<times> store" where
  "openSync_wx w =
     (if lock_file w then (Inl IOError, log_op OpenLock w)
      else (Inr (), log_op OpenLock (w\<lparr>lock_file := True\<rparr>)))"

text \<open>
  \<open>fs.unlinkSync(ASSETS_LOCK_FILE)\<close>: removes the file; throws when there is none, and when
  the removal fails, which leaves the file.
\<close>

definition unlinkSync :: "store \<Rightarrow> (exn + unit) \<times> store" where
  "unlinkSync w =
     (if lock_file w \<and> \<not> unlink_fails w
      then (Inr (), log_op UnlinkLock (w\<lparr>lock_file := False\<rparr>))
      else (Inl IOError, log_op UnlinkLock w))"

subsection \<open>Ledger and transaction log\<close>

definition createInitialAssets :: assets where
  "createInitialAssets =
     \<lparr>capitalYen = 100000000, procurementPts = 100000000, inventory = [], collection = []\<rparr>"

definition createInitialTransactions :: "logged_transaction list" where
  "createInitialTransactions = []"

definition loadAssets :: "store \<Rightarrow> (exn + assets) \<times> store" where
  "loadAssets w =
     (case readJSON_assets w of
        (Inr a, w1) \<Rightarrow> (Inr a, w1)
      | (Inl _, w1) \<Rightarrow>
          (case writeJSON_assets createInitialAssets w1 of
             (Inl e, w2) \<Rightarrow> (Inl e, w2)
           | (Inr _, w2) \<Rightarrow> (Inr createInitialAssets, w2)))"

definition loadTransactions :: "store \<Rightarrow> (exn + logged_transaction list) \<times> store" where
  "loadTransactions w =
     (case readJSON_transactions w of
        (Inr txs, w1) \<Rightarrow> (Inr txs, w1)
      | (Inl _, w1) \<Rightarrow>
          (case writeJSON_transactions createInitialTransactions w1 of
             (Inl e, w2) \<Rightarrow> (Inl e, w2)
           | (Inr _, w2) \<Rightarrow> (Inr createInitialTransactions, w2)))"

text \<open>
  The body of \<open>updateAssets\<close> between \<open>try\<close> and \<open>finally\<close>: load, run the update function
  (which may throw), save.
\<close>

definition updateAssets_body ::
  "(assets \<Rightarrow> exn + assets) \<Rightarrow> store \<Rightarrow> (exn + assets) \<times> store" where
  "updateAssets_body updateFn w =
     (case loadAssets w of
        (Inl e, w1) \<Rightarrow> (Inl e, w1)
      | (Inr a, w1) \<Rightarrow>
          (case updateFn a of
             Inl e \<Rightarrow> (Inl e, w1)
           | Inr updatedAssets \<Rightarrow>
               (case writeJSON_assets updatedAssets w1 of
                  (Inl e, w2) \<Rightarrow> (Inl e, w2)
                | (Inr _, w2) \<Rightarrow> (Inr updatedAssets, w2))))"

text \<open>
  \<open>updateAssets\<close>: take the lock or throw; run the body; in \<open>finally\<close> remove the lock file,
  where a failure of the removal is caught and only logged.
\<close>

definition updateAssets ::
  "(assets \<Rightarrow> exn + assets) \<Rightarrow> store \<Rightarrow> (exn + assets) \<times> store" where
  "updateAssets updateFn w =
     (case openSync_wx w of
        (Inl _, w1) \<Rightarrow> (Inl LockContention, w1)
      | (Inr _, w1) \<Rightarrow>
          (case updateAssets_body updateFn w1 of
             (r, w2) \<Rightarrow> (r, snd (unlinkSync w2))))"

text \<open>
  \<open>recordTransaction\<close>. The stamp is \<open>Math.floor(Date.now() / 1000)\<close>; on a clock reading,
  an integer below \<open>2^53\<close>, the rounded quotient has the floor of the exact one.
\<close>

definition recordTransaction ::
  "transaction \<Rightarrow> ambient \<Rightarrow> store \<Rightarrow> (exn + unit) \<times> store" where
  "recordTransaction t amb w =
     (case loadTransactions w of
        (Inl e, w1) \<Rightarrow> (Inl e, w1)
      | (Inr transactions, w1) \<Rightarrow>
          writeJSON_transactions
            (transactions @ [transaction.extend t \<lparr>ts = dateNowLog amb div 1000\<rparr>]) w1)"

subsection \<open>Purchase\<close>

text \<open>An update of the element that \<open>find\<close> returned, as \<open>inventoryItem.qty -= quantity\<close> is.\<close>

fun update_first :: "('a \<Rightarrow> bool) \<Rightarrow> ('a \<Rightarrow> 'a) \<Rightarrow> 'a list \<Rightarrow> 'a list" where
  "update_first P f [] = []"
| "update_first P f (x # xs) = (if P x then f x # xs else x # update_first P f xs)"

text \<open>The update function that \<open>processPurchase\<close> hands to \<open>updateAssets\<close>.\<close>

definition purchase_update :: "product \<Rightarrow> jsval \<Rightarrow> rat \<Rightarrow> assets \<Rightarrow> exn + assets" where
  "purchase_update mp productName quantity a =
     (case find (\<lambda>item. JStr (item_product item) = productName) (inventory a) of
        None \<Rightarrow> Inl InsufficientInventory
      | Some inventoryItem \<Rightarrow>
          if item_qty inventoryItem < quantity then Inl InsufficientInventory
          else Inr (a\<lparr>inventory :=
                        update_first (\<lambda>item. JStr (item_product item) = productName)
                          (\<lambda>item. item\<lparr>item_qty := js_sub (item_qty item) quantity\<rparr>)
                          (inventory a),
                      capitalYen := js_add (capitalYen a) (js_mul (priceYen mp) quantity)\<rparr>))"

text \<open>
  \<open>processPurchase\<close>. \<open>myProduct\<close> is \<open>null\<close> until the server is initialised; reading
  \<open>myProduct.name\<close> then throws. \<open>productName !== myProduct.name\<close> compares a request value
  with a string.
\<close>

definition processPurchase ::
  "jsval \<Rightarrow> rat \<Rightarrow> string \<Rightarrow> ambient \<Rightarrow> store \<Rightarrow> (exn + purchase_result) \<times> store" where
  "processPurchase productName quantity buyerIp amb w =
     (case myProduct w of
        None \<Rightarrow> (Inl TypeError, w)
      | Some mp \<Rightarrow>
          if productName \<noteq> JStr (name mp) then (Inl ProductMismatch, w)
          else
            (case updateAssets (purchase_update mp productName quantity) w of
               (Inl e, w1) \<Rightarrow> (Inl e, w1)
             | (Inr updatedAssets, w1) \<Rightarrow>
                 (case recordTransaction
                         \<lparr>tx_tradeId = TradeId (dateNow amb) (randomSuffix amb),
                          tx_buyer = buyerIp, tx_seller = myIpAddress w1,
                          tx_product = productName, tx_qty = quantity,
                          tx_price = priceYen mp\<rparr> amb w1 of
                    (Inl e, w2) \<Rightarrow> (Inl e, w2)
                  | (Inr _, w2) \<Rightarrow>
                      (Inr \<lparr>success = True,
                            res_tradeId = TradeId (dateNow amb) (randomSuffix amb),
                            res_product = productName, res_qty = quantity,
                            totalPrice = js_mul (priceYen mp) quantity\<rparr>, w2))))"

subsection \<open>The buy endpoint\<close>

record request =
  req_body :: jsval
  req_ip :: string

text \<open>
  The texts of the error bodies: the server is not active (503); required parameters are
  missing (400); the quantity must be a positive integer (400); the message of a thrown
  error (409); a server error occurred (500).
\<close>

datatype message =
    MsgNotActive
  | MsgMissingParams
  | MsgQtyPositiveInteger
  | MsgOfError exn
  | MsgServerError

datatype reply = ErrorBody message | PurchaseBody purchase_result

datatype response = Response (status_code: nat) (payload: reply)

text \<open>\<open>s.replace(pat, rep)\<close> with a string pattern: the first occurrence only.\<close>

fun replace_first :: "string \<Rightarrow> string \<Rightarrow> string \<Rightarrow> string" where
  "replace_first pat rep [] = (if pat = [] then rep else [])"
| "replace_first pat rep (c # cs) =
     (if take (length pat) (c # cs) = pat then rep @ drop (length pat) (c # cs)
      else c # replace_first pat rep cs)"

text \<open>
  \<open>app.post('/buy')\<close>. Destructuring a body that is \<open>null\<close> or \<open>undefined\<close> throws inside
  the outer \<open>try\<close>. The inner \<open>catch\<close> answers 409 for the two messages it lists and rethrows
  every other error to the outer \<open>catch\<close>, which answers 500.
\<close>

definition buy :: "request \<Rightarrow> ambient \<Rightarrow> store \<Rightarrow> response \<times> store" where
  "buy req amb w =
     (if serverState w \<noteq> ACTIVE then (Response 503 (ErrorBody MsgNotActive), w)
      else
        (case get_prop (req_body req) ''product'' of
           Inl _ \<Rightarrow> (Response 500 (ErrorBody MsgServerError), w)
         | Inr product \<Rightarrow>
             (case get_prop (req_body req) ''qty'' of
                Inl _ \<Rightarrow> (Response 500 (ErrorBody MsgServerError), w)
              | Inr qty \<Rightarrow>
                  if \<not> truthy product \<or> \<not> truthy qty
                  then (Response 400 (ErrorBody MsgMissingParams), w)
                  else
                    (case qty of
                       JNum q \<Rightarrow>
                         if q \<le> 0 then (Response 400 (ErrorBody MsgQtyPositiveInteger), w)
                         else
                           (case processPurchase product q
                                   (replace_first ''::ffff:'' [] (req_ip req)) amb w of
                              (Inr result, w1) \<Rightarrow> (Response 200 (PurchaseBody result), w1)
                            | (Inl e, w1) \<Rightarrow>
                                if e = ProductMismatch \<or> e = InsufficientInventory
                                then (Response 409 (ErrorBody (MsgOfError e)), w1)
                                else (Response 500 (ErrorBody MsgServerError), w1))
                     | _ \<Rightarrow> (Response 400 (ErrorBody MsgQtyPositiveInteger), w)))))"

text \<open>The store of the spec's end-to-end example: juice at 100 yen, 1000 in stock.\<close>

definition juice :: product where
  "juice = \<lparr>name = ''juice'', priceYen = 100\<rparr>"

definition juice_assets :: assets where
  "juice_assets =
     \<lparr>capitalYen = 100000000, procurementPts = 0,
      inventory = [\<lparr>item_product = ''juice'', item_qty = 1000\<rparr>], collection = []\<rparr>"

definition juice_store :: store where
  "juice_store =
     \<lparr>serverState = ACTIVE, myProduct = Some juice, myIpAddress = ''127.0.0.1'',
      lock_file = False, assets_file = Some juice_assets, transactions_file = Some [],
      write_fails = (\<lambda>_. False), unlink_fails = False, trace = []\<rparr>"

definition noon :: ambient where
  "noon = \<lparr>dateNow = 1700000000000, randomSuffix = 42, dateNowLog = 1700000000003\<rparr>"

text \<open>
  \<open>Number.isSafeInteger\<close>: an integer of magnitude at most \<open>2^53 - 1\<close>. Every such number
  is a double.
\<close>

definition safe_integer :: "rat \<Rightarrow> bool" where
  "safe_integer x \<longleftrightarrow> of_int \<lfloor>x\<rfloor> = x \<and> \<bar>x\<bar> \<le> 9007199254740991"

text \<open>
  The operands and the results of a sale of \<open>q\<close> units from the inventory entry \<open>it\<close> of the
  ledger \<open>a\<close> are safe integers; the three operations of the sale are then exact.
\<close>

definition exact_sale :: "product \<Rightarrow> rat \<Rightarrow> inventory_item \<Rightarrow> assets \<Rightarrow> bool" where
  "exact_sale mp q it a \<longleftrightarrow>
     safe_integer q \<and> safe_integer (item_qty it) \<and> safe_integer (priceYen mp) \<and>
     safe_integer (capitalYen a) \<and> safe_integer (item_qty it - q) \<and>
     safe_integer (priceYen mp * q) \<and> safe_integer (capitalYen a + priceYen mp * q)"

text \<open>
  The ledger expected after a sale of \<open>q\<close> units, in exact arithmetic: the first inventory
  entry of the product has \<open>q\<close> less, the capital has the price of the sale more.
\<close>

definition sold :: "product \<Rightarrow> rat \<Rightarrow> assets \<Rightarrow> assets" where
  "sold mp q a =
     a\<lparr>inventory := update_first (\<lambda>item. item_product item = name mp)
                       (\<lambda>item. item\<lparr>item_qty := item_qty item - q\<rparr>) (inventory a),
       capitalYen := capitalYen a + priceYen mp * q\<rparr>"

text \<open>The transaction log as \<open>loadTransactions\<close> reads it.\<close>

definition current_transactions :: "store \<Rightarrow> logged_transaction list" where
  "current_transactions w =
     (case transactions_file w of None \<Rightarrow> createInitialTransactions | Some txs \<Rightarrow> txs)"

text \<open>A request for \<open>q\<close> units of juice, as Express parses it.\<close>

definition juice_request :: "rat \<Rightarrow> request" where
  "juice_request q =
     \<lparr>req_body = JObj [(''product'', JStr ''juice''), (''qty'', JNum q)],
      req_ip = ''::ffff:10.0.0.2''\<rparr>"

text \<open>\<open>typeof v === 'number' && v > 0\<close>, the negation of the second guard of the buy endpoint.\<close>

definition positive_number :: "jsval \<Rightarrow> bool" where
  "positive_number v = (case v of JNum r \<Rightarrow> 0 < r | _ \<Rightarrow> False)"

text \<open>
  No state change between two stores: the same server state, product, lock and transaction
  log, and the same ledger file, where a missing ledger file may have been created with the
  initial ledger that \<open>loadAssets\<close> reads for it anyway, and where a lock file whose
  removal fails is left behind.
\<close>

definition ledger_untouched :: "store \<Rightarrow> store \<Rightarrow> bool" where
  "ledger_untouched w w' \<longleftrightarrow>
     serverState w' = serverState w \<and> myProduct w' = myProduct w \<and>
     (lock_file w' = lock_file w \<or> unlink_fails w \<and> lock_file w') \<and>
     transactions_file w' = transactions_file w \<and>
     (assets_file w' = assets_file w \<or>
      assets_file w = None \<and> assets_file w' = Some createInitialAssets)"

section \<open>The registry: central-server.js\<close>

subsection \<open>Data\<close>

text \<open>
  A catalog entry \<open>{product, price}\<close> and a directory record as the two versions of the
  register endpoint write them: the current one writes \<open>products\<close>, the legacy one the flat
  keys \<open>product\<close> and \<open>price\<close> (here \<open>legacy_product\<close>, \<open>legacy_price\<close>). A key that
  the object does not have is \<open>None\<close>.
\<close>

record entry =
  entry_product :: jsval
  entry_price :: jsval

record market =
  products :: "entry list option"
  legacy_product :: "jsval option"
  legacy_price :: "jsval option"
  address :: string
  status :: "string option"
  createdAt :: "string option"
  updatedAt :: "string option"


datatype reg_op = ReadMarkets | WriteMarkets

text \<open>
  The registry's data directory: the directory file (\<open>None\<close> when missing or unreadable),
  whether \<open>writeJSON\<close> fails on it, and the file operations attempted so far.
  \<open>readJSON\<close> and \<open>writeJSON\<close> behave as modelled for the store.
\<close>

record registry =
  markets_file :: "market list option"
  markets_write_fails :: bool
  reg_trace :: "reg_op list"

text \<open>
  The texts of the response bodies: required parameters are missing (400); a product name
  and a positive price are required (400); the price must be a positive number (400, legacy
  version); the registration is complete (200); a server error occurred (500).
\<close>

datatype reg_message =
    RegMissingParams
  | RegNameAndPriceRequired
  | RegPricePositive
  | RegDone
  | RegServerError

datatype reg_response = RegResponse (reg_status: nat) (reg_body: reg_message)

subsection \<open>Directory file\<close>

definition loadMarkets :: "registry \<Rightarrow> market list \<times> registry" where
  "loadMarkets r =
     (case markets_file r of None \<Rightarrow> [] | Some markets \<Rightarrow> markets,
      r\<lparr>reg_trace := reg_trace r @ [ReadMarkets]\<rparr>)"

definition saveMarkets :: "market list \<Rightarrow> registry \<Rightarrow> (exn + unit) \<times> registry" where
  "saveMarkets markets r =
     (if markets_write_fails r
      then (Inl IOError, r\<lparr>reg_trace := reg_trace r @ [WriteMarkets]\<rparr>)
      else (Inr (), r\<lparr>markets_file := Some markets,
                       reg_trace := reg_trace r @ [WriteMarkets]\<rparr>))"

subsection \<open>Strings from values\<close>

fun join_comma :: "string list \<Rightarrow> string" where
  "join_comma [] = []"
| "join_comma [s] = s"
| "join_comma (s # t # ss) = s @ '','' @ join_comma (t # ss)"

text \<open>The results of a list of conversions, or the first error among them.\<close>

fun collect :: "(exn + 'a) list \<Rightarrow> exn + 'a list" where
  "collect [] = Inr []"
| "collect (Inl e # rs) = Inl e"
| "collect (Inr x # rs) = (case collect rs of Inl e \<Rightarrow> Inl e | Inr xs \<Rightarrow> Inr (x # xs))"

text \<open>
  The string a value contributes to a template literal. How a number is printed is left to
  the parameter \<open>numstr\<close> (\<open>Number.prototype.toString\<close>). An array prints its elements joined
  by commas, \<open>null\<close> and \<open>undefined\<close> elements as the empty string. A parsed object prints
  as \<open>[object Object]\<close> through the inherited \<open>toString\<close>; when it has a key \<open>toString\<close> of
  its own, which holds a value and not a function, no conversion applies and a TypeError is
  thrown.
\<close>

fun js_string :: "(rat \<Rightarrow> string) \<Rightarrow> jsval \<Rightarrow> exn + string" where
  "js_string numstr JUndefined = Inr ''undefined''"
| "js_string numstr JNull = Inr ''null''"
| "js_string numstr (JBool b) = Inr (if b then ''true'' else ''false'')"
| "js_string numstr (JNum r) = Inr (numstr r)"
| "js_string numstr (JStr s) = Inr s"
| "js_string numstr (JArr xs) =
     (case collect (map (\<lambda>x. if x = JNull \<or> x = JUndefined then Inr []
                               else js_string numstr x) xs) of
        Inl e \<Rightarrow> Inl e
      | Inr ss \<Rightarrow> Inr (join_comma ss))"
| "js_string numstr (JObj kvs) =
     (if ''toString'' \<in> fst ` set kvs then Inl TypeError else Inr ''[object Object]'')"

text \<open>\<open>`${ip}:${port}`\<close>\<close>

definition make_address :: "(rat \<Rightarrow> string) \<Rightarrow> jsval \<Rightarrow> jsval \<Rightarrow> exn + string" where
  "make_address numstr ip port =
     (case js_string numstr ip of
        Inl e \<Rightarrow> Inl e
      | Inr s \<Rightarrow>
          (case js_string numstr port of
             Inl e \<Rightarrow> Inl e
           | Inr t \<Rightarrow> Inr (s @ '':'' @ t)))"

subsection \<open>Register\<close>

text \<open>\<open>Array.prototype.findIndex\<close>, with \<open>None\<close> for \<open>-1\<close>.\<close>

fun findIndex :: "('a \<Rightarrow> bool) \<Rightarrow> 'a list \<Rightarrow> nat option" where
  "findIndex P [] = None"
| "findIndex P (x # xs) = (if P x then Some 0 else map_option Suc (findIndex P xs))"

text \<open>
  The loop over the products of a request: \<open>Inr False\<close> when it returns the 400 response,
  \<open>Inr True\<close> when it runs to its end, \<open>Inl\<close> when reading a property of an item throws.
\<close>

fun validate_items :: "jsval list \<Rightarrow> exn + bool" where
  "validate_items [] = Inr True"
| "validate_items (item # rest) =
     (case get_prop item ''product'' of
        Inl e \<Rightarrow> Inl e
      | Inr pname \<Rightarrow>
          if \<not> truthy pname then Inr False
          else
            (case get_prop item ''priceYen'' of
               Inl e \<Rightarrow> Inl e
             | Inr pv \<Rightarrow>
                 (case pv of
                    JNum x \<Rightarrow> if x \<le> 0 then Inr False else validate_items rest
                  | _ \<Rightarrow> Inr False)))"

text \<open>\<open>products.map((p) => ({ product: p.product, price: p.priceYen }))\<close>\<close>

fun to_entries :: "jsval list \<Rightarrow> exn + entry list" where
  "to_entries [] = Inr []"
| "to_entries (p # ps) =
     (case get_prop p ''product'' of
        Inl e \<Rightarrow> Inl e
      | Inr pname \<Rightarrow>
          (case get_prop p ''priceYen'' of
             Inl e \<Rightarrow> Inl e
           | Inr pv \<Rightarrow>
               (case to_entries ps of
                  Inl e \<Rightarrow> Inl e
                | Inr es \<Rightarrow> Inr (\<lparr>entry_product = pname, entry_price = pv\<rparr> # es))))"

text \<open>
  The two branches on \<open>existingIndex\<close>: overwrite the record at that index with \<open>updated\<close>, or
  push \<open>inserted\<close>.
\<close>

definition upsert :: "string \<Rightarrow> market \<Rightarrow> market \<Rightarrow> market list \<Rightarrow> market list" where
  "upsert addr updated inserted markets =
     (case findIndex (\<lambda>m. address m = addr) markets of
        Some existingIndex \<Rightarrow> markets[existingIndex := updated]
      | None \<Rightarrow> markets @ [inserted])"

text \<open>
  The current \<open>app.post('/register')\<close>. \<open>now\<close> and \<open>now'\<close> are the readings of
  \<open>new Date().toISOString()\<close>: the update branch reads the clock once, the insert branch twice.
  A throw of the template literal for the address is caught by the handler's \<open>catch\<close>.
\<close>

definition register ::
  "(rat \<Rightarrow> string) \<Rightarrow> jsval \<Rightarrow> string \<Rightarrow> string \<Rightarrow> registry \<Rightarrow> reg_response \<times> registry" where
  "register numstr body now now' r =
     (case get_prop body ''ip'' of
        Inl _ \<Rightarrow> (RegResponse 500 RegServerError, r)
      | Inr ip \<Rightarrow>
     (case get_prop body ''port'' of
        Inl _ \<Rightarrow> (RegResponse 500 RegServerError, r)
      | Inr port \<Rightarrow>
     (case get_prop body ''products'' of
        Inl _ \<Rightarrow> (RegResponse 500 RegServerError, r)
      | Inr prods \<Rightarrow>
          if \<not> truthy ip \<or> \<not> truthy port \<or> \<not> truthy prods
          then (RegResponse 400 RegMissingParams, r)
          else
            (case prods of
               JArr items \<Rightarrow>
                 if length items = 0 then (RegResponse 400 RegMissingParams, r)
                 else
                   (case validate_items items of
                      Inl _ \<Rightarrow> (RegResponse 500 RegServerError, r)
                    | Inr False \<Rightarrow> (RegResponse 400 RegNameAndPriceRequired, r)
                    | Inr True \<Rightarrow>
                        (case loadMarkets r of
                           (markets, r1) \<Rightarrow>
                             (case make_address numstr ip port of
                                Inl _ \<Rightarrow> (RegResponse 500 RegServerError, r1)
                              | Inr addr \<Rightarrow>
                             (case to_entries items of
                                Inl _ \<Rightarrow> (RegResponse 500 RegServerError, r1)
                              | Inr es \<Rightarrow>
                                  (case saveMarkets
                                          (upsert addr
                                             \<lparr>products = Some es, legacy_product = None,
                                              legacy_price = None, address = addr,
                                              status = Some ''ONLINE'', createdAt = None,
                                              updatedAt = Some now\<rparr>
                                             \<lparr>products = Some es, legacy_product = None,
                                              legacy_price = None, address = addr,
                                              status = Some ''ONLINE'', createdAt = Some now,
                                              updatedAt = Some now'\<rparr>
                                             markets) r1 of
                                     (Inl _, r2) \<Rightarrow> (RegResponse 500 RegServerError, r2)
                                   | (Inr _, r2) \<Rightarrow> (RegResponse 200 RegDone, r2))))))
             | _ \<Rightarrow> (RegResponse 400 RegMissingParams, r)))))"


subsection \<open>Listing\<close>




subsection \<open>Health sweep\<close>

text \<open>What a probe of a store's health endpoint meets.\<close>

datatype probe_outcome = HttpStatus nat | ProbeTimeout | ConnectionFailure

text \<open>
  \<open>axios.get\<close> with a timeout: it resolves with the response when the status is in
  200..299 and rejects for any other status, on timeout and on connection failure.
\<close>

definition axios_get :: "probe_outcome \<Rightarrow> exn + nat" where
  "axios_get outcome =
     (case outcome of
        HttpStatus s \<Rightarrow> if 200 \<le> s \<and> s < 300 then Inr s else Inl RequestFailed
      | ProbeTimeout \<Rightarrow> Inl RequestFailed
      | ConnectionFailure \<Rightarrow> Inl RequestFailed)"

definition checkServerHealth :: "probe_outcome \<Rightarrow> bool" where
  "checkServerHealth outcome =
     (case axios_get outcome of Inr s \<Rightarrow> s = 200 | Inl _ \<Rightarrow> False)"

text \<open>
  \<open>performHealthChecks\<close>. \<open>net i addr\<close> is what the probe of the \<open>i\<close>-th record, sent to
  \<open>addr\<close>, meets. An error of the save is caught and logged.
\<close>

definition performHealthChecks :: "(nat \<Rightarrow> string \<Rightarrow> probe_outcome) \<Rightarrow> registry \<Rightarrow> registry" where
  "performHealthChecks net r =
     (case loadMarkets r of
        (markets, r1) \<Rightarrow>
          snd (saveMarkets
                 (map (\<lambda>(i, m). m\<lparr>status :=
                          Some (if checkServerHealth (net i (address m))
                                then ''ONLINE'' else ''OFFLINE'')\<rparr>)
                    (enumerate 0 markets)) r1))"

subsection \<open>Notions for the statements about the registry\<close>

text \<open>The directory as \<open>loadMarkets\<close> reads it.\<close>

definition current_markets :: "registry \<Rightarrow> market list" where
  "current_markets r = (case markets_file r of None \<Rightarrow> [] | Some markets \<Rightarrow> markets)"

text \<open>The status a sweep gives a record whose probe met \<open>outcome\<close>.\<close>

definition probed_status :: "probe_outcome \<Rightarrow> string" where
  "probed_status outcome = (if outcome = HttpStatus 200 then ''ONLINE'' else ''OFFLINE'')"

text \<open>Reading a key of a value that is neither \<open>null\<close> nor \<open>undefined\<close>.\<close>

definition prop_or_undefined :: "jsval \<Rightarrow> string \<Rightarrow> jsval" where
  "prop_or_undefined v k = (case get_prop v k of Inr x \<Rightarrow> x | Inl _ \<Rightarrow> JUndefined)"

text \<open>The catalog entry stored for an item of a request.\<close>

definition entry_of :: "jsval \<Rightarrow> entry" where
  "entry_of p = \<lparr>entry_product = prop_or_undefined p ''product'',
                 entry_price = prop_or_undefined p ''priceYen''\<rparr>"


text \<open>The record the current register endpoint stores, and the one the legacy endpoint stores.\<close>

definition registered :: "entry list \<Rightarrow> string \<Rightarrow> string option \<Rightarrow> string \<Rightarrow> market" where
  "registered es addr created updated =
     \<lparr>products = Some es, legacy_product = None, legacy_price = None, address = addr,
      status = Some ''ONLINE'', createdAt = created, updatedAt = Some updated\<rparr>"



text \<open>Example requests and an example directory.\<close>

definition multi_request :: jsval where
  "multi_request =
     JObj [(''ip'', JStr ''10.0.0.1''), (''port'', JStr ''9000''),
           (''products'', JArr [JObj [(''product'', JStr ''juice''), (''priceYen'', JNum 100)]])]"


definition tea_shop :: market where
  "tea_shop =
     \<lparr>products = Some [\<lparr>entry_product = JStr ''tea'', entry_price = JNum 80\<rparr>],
      legacy_product = None, legacy_price = None, address = ''10.0.0.1:9000'',
      status = Some ''OFFLINE'', createdAt = Some ''day1'', updatedAt = Some ''day2''\<rparr>"

definition rice_shop :: market where
  "rice_shop =
     \<lparr>products = None, legacy_product = Some (JStr ''rice''), legacy_price = Some (JNum 300),
      address = ''10.0.0.2:9000'', status = Some ''ONLINE'', createdAt = Some ''day1'',
      updatedAt = Some ''day1''\<rparr>"

definition two_shops :: registry where
  "two_shops =
     \<lparr>markets_file = Some [tea_shop, rice_shop], markets_write_fails = False, reg_trace = []\<rparr>"

text \<open>An example network: the first shop answers 200, the second 503, any other times out.\<close>

definition sweep_net :: "nat \<Rightarrow> string \<Rightarrow> probe_outcome" where
  "sweep_net i addr =
     (if addr = ''10.0.0.1:9000'' then HttpStatus 200
      else if addr = ''10.0.0.2:9000'' then HttpStatus 503
      else ProbeTimeout)"



definition empty_registry :: registry where
  "empty_registry = \<lparr>markets_file = None, markets_write_fails = False, reg_trace = []\<rparr>"

section \<open>Properties of the store\<close>

subsection \<open>Rounding is exact on doubles\<close>

lemma binary_exponent_le:
  assumes "0 < a"
  shows "2 powi binary_exponent a \<le> a"
proof -
  obtain p d where pd: "quotient_of a = (p, d)" by (cases "quotient_of a")
  then have d: "0 < d" and a: "a = of_int p / of_int d"
    using quotient_of_denom_pos quotient_of_div by auto
  then have p: "0 < p" using assms by (simp add: zero_less_divide_iff)
  show ?thesis
  proof (cases "2 powi (bitlen p - bitlen d) \<le> a")
    case True
    then show ?thesis using pd by (simp add: binary_exponent_def)
  next
    case False
    have "bitlen p \<ge> 1" and "bitlen d \<ge> 1"
      using p d bitlen_eq_zero_iff bitlen_nonneg
      by (metis add_0 linorder_not_less zless_imp_add1_zle order_less_le)+
    have "(2::rat) ^ nat (bitlen p - 1) \<le> of_int p"
      using bitlen_bounds [OF p] by (metis of_int_le_iff of_int_numeral of_int_power)
    moreover have "(of_int d :: rat) < 2 ^ nat (bitlen d)"
      using bitlen_bounds [OF d] by (metis of_int_less_iff of_int_numeral of_int_power)
    ultimately have "(2::rat) ^ nat (bitlen p - 1) / 2 ^ nat (bitlen d) \<le> of_int p / of_int d"
      using d p by (intro frac_le) auto
    moreover have "(2::rat) ^ nat (bitlen p - 1) / 2 ^ nat (bitlen d) =
        2 powi (bitlen p - bitlen d - 1)"
    proof -
      have "(2::rat) ^ nat (bitlen p - 1) = 2 powi (bitlen p - 1)"
        using \<open>bitlen p \<ge> 1\<close> by (simp add: power_int_nonneg_exp)
      moreover have "(2::rat) ^ nat (bitlen d) = 2 powi bitlen d"
        using \<open>bitlen d \<ge> 1\<close> by (simp add: power_int_nonneg_exp)
      moreover have "(2::rat) powi (bitlen p - 1) / 2 powi bitlen d =
          2 powi (bitlen p - 1 - bitlen d)"
        by (simp add: power_int_diff)
      moreover have "bitlen p - 1 - bitlen d = bitlen p - bitlen d - 1" by simp
      ultimately show ?thesis by simp
    qed
    ultimately show ?thesis using False pd a by (simp add: binary_exponent_def)
  qed
qed


lemma round_half_even_of_int: "round_half_even (of_int n) = n"
  by (simp add: round_half_even_def)

lemma round_double_exact:
  assumes x: "x = of_int m * 2 powi e" and m: "\<bar>m\<bar> < 2 ^ 53" and e: "- 1074 \<le> e"
  shows "round_double x = x"
proof (cases "x = 0")
  case True
  then show ?thesis by (simp add: round_double_def)
next
  case False
  define a where "a = \<bar>x\<bar>"
  define q where "q = max (binary_exponent a - 52) (- 1074)"
  have a: "a = of_int \<bar>m\<bar> * 2 powi e"
    by (simp add: a_def x abs_mult power_int_abs)
  have apos: "0 < a" using False by (simp add: a_def)
  have le: "2 powi binary_exponent a \<le> a" by (rule binary_exponent_le [OF apos])
  have "\<exists>n::int. a / 2 powi q = of_int n"
  proof (cases "q \<le> e")
    case True
    have "a / 2 powi q = of_int \<bar>m\<bar> * 2 powi (e - q)"
      by (simp add: a power_int_diff)
    also have "\<dots> = of_int (\<bar>m\<bar> * 2 ^ nat (e - q))"
      using True by (simp add: power_int_nonneg_exp)
    finally show ?thesis by blast
  next
    case False
    then have qe: "e < q" by simp
    then have "q = binary_exponent a - 52" using e by (simp add: q_def max_def split: if_splits)
    then have "2 powi (q + 52) \<le> a" using le by simp
    then have "(2::rat) powi (q + 52) \<le> of_int \<bar>m\<bar> * 2 powi e" by (simp add: a)
    then have "(2::rat) powi (q + 52) / 2 powi e \<le> of_int \<bar>m\<bar>"
      by (simp add: pos_divide_le_eq)
    then have "(2::rat) powi (q + 52 - e) \<le> of_int \<bar>m\<bar>"
      by (simp add: power_int_diff)
    moreover have "(2::rat) powi 53 \<le> 2 powi (q + 52 - e)"
      using qe by (intro power_int_increasing) auto
    ultimately have "(2::rat) ^ 53 \<le> of_int \<bar>m\<bar>" by simp
    then have "(2::int) ^ 53 \<le> \<bar>m\<bar>"
      by (metis of_int_le_iff of_int_numeral of_int_power)
    then show ?thesis using m by simp
  qed
  then obtain n :: int where n: "a / 2 powi q = of_int n" by blast
  have "round_double x = sgn x * of_int (round_half_even (a / 2 powi q)) * 2 powi q"
    using False by (simp add: round_double_def a_def q_def)
  also have "\<dots> = sgn x * (a / 2 powi q) * 2 powi q"
    by (simp add: n round_half_even_of_int)
  also have "\<dots> = sgn x * a" by simp
  also have "\<dots> = x" by (simp add: a_def sgn_mult_abs)
  finally show ?thesis .
qed

lemma round_double_safe_integer:
  assumes "safe_integer x"
  shows "round_double x = x"
proof -
  have "x = of_int \<lfloor>x\<rfloor> * 2 powi 0" using assms by (auto simp add: safe_integer_def)
  moreover have "\<bar>\<lfloor>x\<rfloor>\<bar> < 2 ^ 53"
  proof -
    have "\<bar>(of_int \<lfloor>x\<rfloor> :: rat)\<bar> \<le> 9007199254740991"
      using assms by (auto simp add: safe_integer_def)
    then have "\<bar>\<lfloor>x\<rfloor>\<bar> \<le> 9007199254740991"
      by (metis of_int_abs of_int_le_iff of_int_numeral)
    then show ?thesis by simp
  qed
  ultimately show ?thesis by (rule round_double_exact) simp
qed

lemma js_sub_exact: "safe_integer (x - y) \<Longrightarrow> js_sub x y = x - y"
  by (simp add: js_sub_def round_double_safe_integer)

lemma js_mul_exact: "safe_integer (x * y) \<Longrightarrow> js_mul x y = x * y"
  by (simp add: js_mul_def round_double_safe_integer)

lemma js_add_exact: "safe_integer (x + y) \<Longrightarrow> js_add x y = x + y"
  by (simp add: js_add_def round_double_safe_integer)

lemma safe_integer_of_int: "safe_integer (of_int n) \<longleftrightarrow> \<bar>n\<bar> \<le> 9007199254740991"
proof -
  have "\<bar>(of_int n :: rat)\<bar> \<le> 9007199254740991 \<longleftrightarrow> \<bar>n\<bar> \<le> 9007199254740991"
    by (metis of_int_abs of_int_le_iff of_int_numeral)
  then show ?thesis by (simp add: safe_integer_def)
qed

lemma safe_integer_numeral:
  "safe_integer (numeral k) \<longleftrightarrow> (numeral k :: int) \<le> 9007199254740991"
  using safe_integer_of_int [of "numeral k"] by simp

lemma update_first_cong:
  "find P xs = Some x \<Longrightarrow> f x = g x \<Longrightarrow> update_first P f xs = update_first P g xs"
  by (induction xs) (auto split: if_splits)

subsection \<open>Auxiliary facts\<close>

lemma find_update_first:
  "find P xs = Some x \<Longrightarrow> P (f x) \<Longrightarrow> find P (update_first P f xs) = Some (f x)"
  by (induction xs) (auto split: if_splits)

lemma find_SomeD: "find P xs = Some x \<Longrightarrow> P x"
  by (induction xs) (auto split: if_splits)

lemma updateAssets_ok:
  assumes "\<not> lock_file w" "assets_file w = Some a" "updateFn a = Inr a'"
    "\<not> write_fails w ASSETS_FILE"
  shows "updateAssets updateFn w =
     (Inr a', w\<lparr>lock_file := unlink_fails w, assets_file := Some a',
        trace := trace w @ [OpenLock, ReadFile ASSETS_FILE, WriteFile ASSETS_FILE, UnlinkLock]\<rparr>)"
  using assms
  by (simp add: updateAssets_def openSync_wx_def updateAssets_body_def loadAssets_def
      readJSON_assets_def writeJSON_assets_def unlinkSync_def log_op_def)

lemma recordTransaction_ok:
  assumes "transactions_file w = Some txs" "\<not> write_fails w TRANSACTIONS_FILE"
  shows "recordTransaction t amb w =
     (Inr (), w\<lparr>transactions_file :=
                  Some (txs @ [transaction.extend t \<lparr>ts = dateNowLog amb div 1000\<rparr>]),
        trace := trace w @ [ReadFile TRANSACTIONS_FILE, WriteFile TRANSACTIONS_FILE]\<rparr>)"
  using assms
  by (simp add: recordTransaction_def loadTransactions_def readJSON_transactions_def
      writeJSON_transactions_def log_op_def)

lemma recordTransaction_ok_fresh:
  assumes "transactions_file w = None" "\<not> write_fails w TRANSACTIONS_FILE"
  shows "recordTransaction t amb w =
     (Inr (), w\<lparr>transactions_file :=
                  Some [transaction.extend t \<lparr>ts = dateNowLog amb div 1000\<rparr>],
        trace := trace w @ [ReadFile TRANSACTIONS_FILE, WriteFile TRANSACTIONS_FILE,
                            WriteFile TRANSACTIONS_FILE]\<rparr>)"
  using assms
  by (simp add: recordTransaction_def loadTransactions_def readJSON_transactions_def
      writeJSON_transactions_def log_op_def createInitialTransactions_def)

lemma purchase_update_ok:
  assumes found: "find (\<lambda>item. item_product item = name mp) (inventory a) = Some it"
    and "q \<le> item_qty it"
    and ex: "exact_sale mp q it a"
  shows "purchase_update mp (JStr (name mp)) q a = Inr (sold mp q a)"
proof -
  have "js_sub (item_qty it) q = item_qty it - q"
    and "js_mul (priceYen mp) q = priceYen mp * q"
    and "js_add (capitalYen a) (priceYen mp * q) = capitalYen a + priceYen mp * q"
    using ex by (simp_all add: exact_sale_def js_sub_exact js_mul_exact js_add_exact)
  moreover from this have
    "update_first (\<lambda>item. item_product item = name mp)
       (\<lambda>item. item\<lparr>item_qty := js_sub (item_qty item) q\<rparr>) (inventory a) =
     update_first (\<lambda>item. item_product item = name mp)
       (\<lambda>item. item\<lparr>item_qty := item_qty item - q\<rparr>) (inventory a)"
    by (intro update_first_cong [OF found]) simp
  ultimately show ?thesis
    using assms(1,2) by (simp add: purchase_update_def sold_def)
qed

lemma js_mul_sale: "exact_sale mp q it a \<Longrightarrow> js_mul (priceYen mp) q = priceYen mp * q"
  by (simp add: exact_sale_def js_mul_exact)

lemma find_sold:
  assumes "find (\<lambda>item. item_product item = name mp) (inventory a) = Some it"
  shows "find (\<lambda>item. item_product item = name mp) (inventory (sold mp q a)) =
           Some (it\<lparr>item_qty := item_qty it - q\<rparr>)"
  using find_update_first [OF assms, of "\<lambda>item. item\<lparr>item_qty := item_qty item - q\<rparr>"]
    find_SomeD [OF assms]
  by (simp add: sold_def)

lemma updateAssets_purchase_ok:
  assumes "\<not> lock_file w" and "assets_file w = Some a"
    and "find (\<lambda>item. item_product item = name mp) (inventory a) = Some it"
    and "q \<le> item_qty it"
    and "exact_sale mp q it a"
    and "\<not> write_fails w ASSETS_FILE"
  shows "updateAssets (purchase_update mp (JStr (name mp)) q) w =
     (Inr (sold mp q a), w\<lparr>lock_file := unlink_fails w, assets_file := Some (sold mp q a),
        trace := trace w @ [OpenLock, ReadFile ASSETS_FILE, WriteFile ASSETS_FILE, UnlinkLock]\<rparr>)"
  using assms(1,2,6) purchase_update_ok [OF assms(3,4,5)]
  by (simp add: updateAssets_ok [where updateFn = "purchase_update mp (JStr (name mp)) q" and a = a])

lemma juice_find:
  "find (\<lambda>item. item_product item = name juice) (inventory juice_assets) =
     Some \<lparr>item_product = ''juice'', item_qty = 1000\<rparr>"
  by (simp add: juice_def juice_assets_def)

subsection \<open>Purchases within stock\<close>

text \<open>
  Claim C1. Take a store whose defined product is \<open>mp\<close>, whose ledger file holds a ledger with
  an inventory entry of that product of quantity \<open>Q\<close>, whose lock is free and whose files can be
  written, and let price, capital, \<open>Q\<close>, the quantity \<open>q \<le> Q\<close> asked for and the three results
  \<open>Q - q\<close>, \<open>price * q\<close> and \<open>capital + price * q\<close> be safe integers, so that the double
  arithmetic of the purchase is exact. Then the purchase succeeds: it returns the trade
  identifier, the product, the quantity and the total price \<open>price * q\<close>; the persisted ledger
  has quantity \<open>Q - q\<close> for the product and a capital raised by \<open>price * q\<close>, with the
  procurement points untouched; the transaction is appended to the log; and the lock file is
  gone unless its removal fails.
\<close>

theorem purchase_within_stock:
  assumes "myProduct w = Some mp"
    and "\<not> lock_file w"
    and "assets_file w = Some a"
    and "find (\<lambda>item. item_product item = name mp) (inventory a) = Some it"
    and "item_qty it = Q" and "q \<le> Q"
    and "exact_sale mp q it a"
    and "\<not> write_fails w ASSETS_FILE" and "\<not> write_fails w TRANSACTIONS_FILE"
  shows "fst (processPurchase (JStr (name mp)) q buyerIp amb w) =
           Inr \<lparr>success = True, res_tradeId = TradeId (dateNow amb) (randomSuffix amb),
                res_product = JStr (name mp), res_qty = q, totalPrice = priceYen mp * q\<rparr>
       \<and> assets_file (snd (processPurchase (JStr (name mp)) q buyerIp amb w)) = Some (sold mp q a)
       \<and> find (\<lambda>item. item_product item = name mp) (inventory (sold mp q a)) =
           Some (it\<lparr>item_qty := Q - q\<rparr>)
       \<and> capitalYen (sold mp q a) = capitalYen a + priceYen mp * q
       \<and> procurementPts (sold mp q a) = procurementPts a
       \<and> transactions_file (snd (processPurchase (JStr (name mp)) q buyerIp amb w)) =
           Some (current_transactions w @
             [\<lparr>tx_tradeId = TradeId (dateNow amb) (randomSuffix amb), tx_buyer = buyerIp,
               tx_seller = myIpAddress w, tx_product = JStr (name mp), tx_qty = q,
               tx_price = priceYen mp, ts = dateNowLog amb div 1000\<rparr>])
       \<and> lock_file (snd (processPurchase (JStr (name mp)) q buyerIp amb w)) = unlink_fails w"
proof -
  have ua: "updateAssets (purchase_update mp (JStr (name mp)) q) w =
     (Inr (sold mp q a), w\<lparr>lock_file := unlink_fails w, assets_file := Some (sold mp q a),
        trace := trace w @ [OpenLock, ReadFile ASSETS_FILE, WriteFile ASSETS_FILE, UnlinkLock]\<rparr>)"
    using assms(2-8) by (simp add: updateAssets_purchase_ok)
  note mul = js_mul_sale [OF assms(7)]
  have run: "fst (processPurchase (JStr (name mp)) q buyerIp amb w) =
           Inr \<lparr>success = True, res_tradeId = TradeId (dateNow amb) (randomSuffix amb),
                res_product = JStr (name mp), res_qty = q, totalPrice = priceYen mp * q\<rparr>
       \<and> assets_file (snd (processPurchase (JStr (name mp)) q buyerIp amb w)) = Some (sold mp q a)
       \<and> transactions_file (snd (processPurchase (JStr (name mp)) q buyerIp amb w)) =
           Some (current_transactions w @
             [\<lparr>tx_tradeId = TradeId (dateNow amb) (randomSuffix amb), tx_buyer = buyerIp,
               tx_seller = myIpAddress w, tx_product = JStr (name mp), tx_qty = q,
               tx_price = priceYen mp, ts = dateNowLog amb div 1000\<rparr>])
       \<and> lock_file (snd (processPurchase (JStr (name mp)) q buyerIp amb w)) = unlink_fails w"
  proof (cases "transactions_file w")
    case None
    then show ?thesis
      using assms(1,2,9)
      by (simp add: processPurchase_def ua mul recordTransaction_ok_fresh
          current_transactions_def createInitialTransactions_def transaction.defs)
  next
    case (Some txs)
    then show ?thesis
      using assms(1,2,9)
      by (simp add: processPurchase_def ua mul recordTransaction_ok current_transactions_def
          transaction.defs)
  qed
  have "find (\<lambda>item. item_product item = name mp) (inventory (sold mp q a)) =
           Some (it\<lparr>item_qty := Q - q\<rparr>)"
    using find_sold [OF assms(4), of q] assms(5) by simp
  moreover have "capitalYen (sold mp q a) = capitalYen a + priceYen mp * q"
    and "procurementPts (sold mp q a) = procurementPts a"
    by (simp_all add: sold_def)
  ultimately show ?thesis using run by simp
qed

text \<open>The spec's end-to-end example: 5 of 1000 units of juice at 100 yen.\<close>

theorem purchase_within_stock_witness:
  "fst (processPurchase (JStr ''juice'') 5 ''10.0.0.2'' noon juice_store) =
           Inr \<lparr>success = True, res_tradeId = TradeId 1700000000000 42,
                res_product = JStr ''juice'', res_qty = 5, totalPrice = 500\<rparr>
   \<and> find (\<lambda>item. item_product item = ''juice'')
        (inventory (the (assets_file
           (snd (processPurchase (JStr ''juice'') 5 ''10.0.0.2'' noon juice_store))))) =
       Some \<lparr>item_product = ''juice'', item_qty = 995\<rparr>
   \<and> capitalYen (the (assets_file
           (snd (processPurchase (JStr ''juice'') 5 ''10.0.0.2'' noon juice_store)))) =
       100000500"
  using purchase_within_stock [of juice_store juice juice_assets
      "\<lparr>item_product = ''juice'', item_qty = 1000\<rparr>" 1000 5 "''10.0.0.2''" noon]
    juice_find
  by (simp add: juice_store_def juice_def juice_assets_def noon_def exact_sale_def
      safe_integer_numeral)

subsection \<open>Purchases beyond stock\<close>

lemma purchase_update_short:
  assumes "find (\<lambda>item. item_product item = name mp) (inventory a) = Some it"
    and "item_qty it < q"
  shows "purchase_update mp (JStr (name mp)) q a = Inl InsufficientInventory"
  using assms by (simp add: purchase_update_def)

lemma updateAssets_throw:
  assumes "\<not> lock_file w" "assets_file w = Some a" "updateFn a = Inl e"
  shows "updateAssets updateFn w =
     (Inl e, w\<lparr>lock_file := unlink_fails w,
               trace := trace w @ [OpenLock, ReadFile ASSETS_FILE, UnlinkLock]\<rparr>)"
  using assms
  by (simp add: updateAssets_def openSync_wx_def updateAssets_body_def loadAssets_def
      readJSON_assets_def unlinkSync_def log_op_def)

text \<open>
  Claim C2. Take a store whose defined product is \<open>mp\<close>, whose lock is free and whose ledger
  file holds a ledger with an inventory entry of that product of quantity \<open>Q\<close>. Then a purchase
  of \<open>q > Q\<close> units fails with InsufficientInventory, and the store afterwards is the store
  before, but for the record of the file operations: the lock was taken, the ledger read, the
  removal of the lock attempted, and nothing was written. (Where the removal of the lock file
  fails, the lock file is left.) The ledger file holds the same capital, procurement points
  and inventory as before.
\<close>

theorem purchase_beyond_stock:
  assumes "myProduct w = Some mp"
    and "\<not> lock_file w"
    and "assets_file w = Some a"
    and "find (\<lambda>item. item_product item = name mp) (inventory a) = Some it"
    and "item_qty it = Q" and "Q < q"
  shows "processPurchase (JStr (name mp)) q buyerIp amb w =
           (Inl InsufficientInventory,
            w\<lparr>lock_file := unlink_fails w,
              trace := trace w @ [OpenLock, ReadFile ASSETS_FILE, UnlinkLock]\<rparr>)
       \<and> assets_file (snd (processPurchase (JStr (name mp)) q buyerIp amb w)) = Some a"
proof -
  have "purchase_update mp (JStr (name mp)) q a = Inl InsufficientInventory"
    using assms(4-6) by (simp add: purchase_update_short)
  then have "updateAssets (purchase_update mp (JStr (name mp)) q) w =
     (Inl InsufficientInventory,
      w\<lparr>lock_file := unlink_fails w,
        trace := trace w @ [OpenLock, ReadFile ASSETS_FILE, UnlinkLock]\<rparr>)"
    using assms(2,3)
    by (simp add: updateAssets_throw
          [where updateFn = "purchase_update mp (JStr (name mp)) q" and a = a])
  then show ?thesis
    using assms(1,3) by (simp add: processPurchase_def)
qed

text \<open>The spec's end-to-end example: 2000 units asked of a stock of 1000.\<close>

theorem purchase_beyond_stock_witness:
  "processPurchase (JStr ''juice'') 2000 ''10.0.0.2'' noon juice_store =
     (Inl InsufficientInventory,
      juice_store\<lparr>trace := [OpenLock, ReadFile ASSETS_FILE, UnlinkLock]\<rparr>)
   \<and> assets_file (snd (processPurchase (JStr ''juice'') 2000 ''10.0.0.2'' noon juice_store)) =
       Some juice_assets"
  using purchase_beyond_stock [of juice_store juice juice_assets
      "\<lparr>item_product = ''juice'', item_qty = 1000\<rparr>" 1000 2000 "''10.0.0.2''" noon]
    juice_find
  by (simp add: juice_store_def juice_def juice_assets_def)

subsection \<open>The lock is released\<close>

lemma unlinkSync_lock:
  "lock_file w \<Longrightarrow> lock_file (snd (unlinkSync w)) = unlink_fails w"
  by (simp add: unlinkSync_def log_op_def)

lemma unlinkSync_trace: "trace (snd (unlinkSync w)) = trace w @ [UnlinkLock]"
  by (simp add: unlinkSync_def log_op_def)

lemma openSync_wx_trace: "trace (snd (openSync_wx w)) = trace w @ [OpenLock]"
  by (simp add: openSync_wx_def log_op_def)

lemma updateAssets_body_trace:
  "\<exists>ops. trace (snd (updateAssets_body f w)) = trace w @ ops"
  by (auto simp add: updateAssets_body_def loadAssets_def readJSON_assets_def
      writeJSON_assets_def log_op_def split: option.splits sum.splits)

lemma updateAssets_body_lock:
  "lock_file (snd (updateAssets_body f w)) = lock_file w
   \<and> unlink_fails (snd (updateAssets_body f w)) = unlink_fails w"
  by (auto simp add: updateAssets_body_def loadAssets_def readJSON_assets_def
      writeJSON_assets_def log_op_def split: option.splits sum.splits)

text \<open>
  Claim C8 fails where the removal of the lock file itself fails: \<open>updateAssets\<close> catches and
  logs that error in its \<open>finally\<close> block, so the call completes, here with the saved
  ledger as its result, and leaves the lock held.
\<close>

theorem lock_stays_when_removal_fails:
  "fst (updateAssets Inr (juice_store\<lparr>unlink_fails := True\<rparr>)) = Inr juice_assets
   \<and> lock_file (snd (updateAssets Inr (juice_store\<lparr>unlink_fails := True\<rparr>)))"
  by (simp add: juice_store_def updateAssets_def openSync_wx_def updateAssets_body_def
      loadAssets_def readJSON_assets_def writeJSON_assets_def unlinkSync_def log_op_def)

text \<open>
  Claim C8, amended. Every call of \<open>updateAssets\<close> that acquires the lock (the lock file did
  not exist) attempts the removal of the lock file as its last file operation, whatever the
  update function does (return or throw) and whether loading and saving the ledger succeed
  or throw; the call returns with the lock released if the removal succeeds, and with the
  lock held if the removal fails.
\<close>

theorem updateAssets_releases_lock:
  assumes "\<not> lock_file w"
  shows "(\<exists>ops. trace (snd (updateAssets updateFn w)) =
                   trace w @ [OpenLock] @ ops @ [UnlinkLock])
       \<and> (\<not> unlink_fails w \<longrightarrow> \<not> lock_file (snd (updateAssets updateFn w)))
       \<and> (unlink_fails w \<longrightarrow> lock_file (snd (updateAssets updateFn w)))"
proof -
  obtain r w2 where body: "updateAssets_body updateFn (snd (openSync_wx w)) = (r, w2)"
    by (cases "updateAssets_body updateFn (snd (openSync_wx w))")
  have acq: "openSync_wx w = (Inr (), snd (openSync_wx w))"
    using assms by (simp add: openSync_wx_def)
  have held: "lock_file (snd (openSync_wx w))"
    and same: "unlink_fails (snd (openSync_wx w)) = unlink_fails w"
    using assms by (simp_all add: openSync_wx_def log_op_def)
  have res: "updateAssets updateFn w = (r, snd (unlinkSync w2))"
    unfolding updateAssets_def using acq body
    by (metis (no_types, lifting) old.prod.case old.sum.simps(6))
  have w2: "lock_file w2" "unlink_fails w2 = unlink_fails w"
    using updateAssets_body_lock [of updateFn "snd (openSync_wx w)"] body held same by simp_all
  obtain ops where "trace w2 = trace (snd (openSync_wx w)) @ ops"
    using updateAssets_body_trace [of updateFn "snd (openSync_wx w)"] body by auto
  then have "trace (snd (unlinkSync w2)) = trace w @ [OpenLock] @ ops @ [UnlinkLock]"
    by (simp add: unlinkSync_trace openSync_wx_trace)
  moreover have "lock_file (snd (unlinkSync w2)) = unlink_fails w"
    using unlinkSync_lock [OF w2(1)] w2(2) by simp
  ultimately show ?thesis using res by auto
qed

text \<open>
  The three exit paths at the juice store: the update function returns and the ledger is
  saved; the update function throws; saving the ledger throws. And the first of them when
  the removal of the lock file fails.
\<close>

theorem updateAssets_releases_lock_witness:
  "(fst (updateAssets Inr juice_store) = Inr juice_assets
      \<and> \<not> lock_file (snd (updateAssets Inr juice_store)))
   \<and> (fst (updateAssets (\<lambda>a. Inl InsufficientInventory) juice_store) =
        Inl InsufficientInventory
      \<and> \<not> lock_file (snd (updateAssets (\<lambda>a. Inl InsufficientInventory) juice_store)))
   \<and> (fst (updateAssets Inr (juice_store\<lparr>write_fails := (\<lambda>p. p = ASSETS_FILE)\<rparr>)) =
        Inl IOError
      \<and> \<not> lock_file (snd (updateAssets Inr
            (juice_store\<lparr>write_fails := (\<lambda>p. p = ASSETS_FILE)\<rparr>))))
   \<and> lock_file (snd (updateAssets Inr (juice_store\<lparr>unlink_fails := True\<rparr>)))"
  using updateAssets_releases_lock [of juice_store Inr]
    updateAssets_releases_lock [of juice_store "\<lambda>a. Inl InsufficientInventory"]
    updateAssets_releases_lock [of "juice_store\<lparr>write_fails := (\<lambda>p. p = ASSETS_FILE)\<rparr>" Inr]
    updateAssets_releases_lock [of "juice_store\<lparr>unlink_fails := True\<rparr>" Inr]
  by (simp add: juice_store_def updateAssets_def openSync_wx_def updateAssets_body_def
      loadAssets_def readJSON_assets_def writeJSON_assets_def unlinkSync_def log_op_def)

subsection \<open>A purchase whose log entry cannot be written\<close>

lemma recordTransaction_fail:
  assumes "write_fails w TRANSACTIONS_FILE"
  shows "fst (recordTransaction t amb w) = Inl IOError
       \<and> transactions_file (snd (recordTransaction t amb w)) = transactions_file w
       \<and> assets_file (snd (recordTransaction t amb w)) = assets_file w
       \<and> lock_file (snd (recordTransaction t amb w)) = lock_file w"
  using assms
  by (simp add: recordTransaction_def loadTransactions_def readJSON_transactions_def
      writeJSON_transactions_def log_op_def split: option.splits)

lemma processPurchase_unlogged:
  assumes "myProduct w = Some mp"
    and "\<not> lock_file w" and "assets_file w = Some a"
    and "find (\<lambda>item. item_product item = name mp) (inventory a) = Some it"
    and "q \<le> item_qty it" and "exact_sale mp q it a"
    and "\<not> write_fails w ASSETS_FILE" and "write_fails w TRANSACTIONS_FILE"
  shows "fst (processPurchase (JStr (name mp)) q buyerIp amb w) = Inl IOError
       \<and> assets_file (snd (processPurchase (JStr (name mp)) q buyerIp amb w)) = Some (sold mp q a)
       \<and> transactions_file (snd (processPurchase (JStr (name mp)) q buyerIp amb w)) =
           transactions_file w"
proof -
  let ?w1 = "w\<lparr>lock_file := unlink_fails w, assets_file := Some (sold mp q a),
        trace := trace w @ [OpenLock, ReadFile ASSETS_FILE, WriteFile ASSETS_FILE, UnlinkLock]\<rparr>"
  let ?t = "\<lparr>tx_tradeId = TradeId (dateNow amb) (randomSuffix amb),
            tx_buyer = buyerIp, tx_seller = myIpAddress ?w1,
            tx_product = JStr (name mp), tx_qty = q, tx_price = priceYen mp\<rparr>"
  have ua: "updateAssets (purchase_update mp (JStr (name mp)) q) w = (Inr (sold mp q a), ?w1)"
    using assms(2-7) by (simp add: updateAssets_purchase_ok)
  have "write_fails ?w1 TRANSACTIONS_FILE" using assms(8) by simp
  from recordTransaction_fail [OF this, of ?t amb]
  obtain w2 where rt: "recordTransaction ?t amb ?w1 = (Inl IOError, w2)"
    and "transactions_file w2 = transactions_file w"
    and "assets_file w2 = Some (sold mp q a)"
    by (cases "recordTransaction ?t amb ?w1") auto
  then show ?thesis
    using assms(1,2) ua by (simp add: processPurchase_def)
qed

text \<open>
  Claim C10. Take an active store, a well-formed request for \<open>q\<close> units of its product that
  the stock covers, a free lock and a ledger file that can be written, while the transaction
  log cannot; and let the operands and results of the sale be safe integers, so that its
  double arithmetic is exact. Then the buy answers 500 with the generic server-error body, yet the ledger
  file holds the ledger after the sale (quantity lowered by \<open>q\<close>, capital raised by
  \<open>price * q\<close>), and the transaction log is what it was: no record of the sale exists.
\<close>

theorem unlogged_purchase_stays_committed:
  assumes "serverState w = ACTIVE" and "myProduct w = Some mp" and "name mp \<noteq> []"
    and "get_prop (req_body req) ''product'' = Inr (JStr (name mp))"
    and "get_prop (req_body req) ''qty'' = Inr (JNum q)" and "0 < q"
    and "\<not> lock_file w" and "assets_file w = Some a"
    and "find (\<lambda>item. item_product item = name mp) (inventory a) = Some it"
    and "q \<le> item_qty it" and "exact_sale mp q it a"
    and "\<not> write_fails w ASSETS_FILE" and "write_fails w TRANSACTIONS_FILE"
  shows "fst (buy req amb w) = Response 500 (ErrorBody MsgServerError)
       \<and> assets_file (snd (buy req amb w)) = Some (sold mp q a)
       \<and> find (\<lambda>item. item_product item = name mp) (inventory (sold mp q a)) =
           Some (it\<lparr>item_qty := item_qty it - q\<rparr>)
       \<and> capitalYen (sold mp q a) = capitalYen a + priceYen mp * q
       \<and> transactions_file (snd (buy req amb w)) = transactions_file w"
proof -
  let ?ip = "replace_first ''::ffff:'' [] (req_ip req)"
  obtain w2 where pp: "processPurchase (JStr (name mp)) q ?ip amb w = (Inl IOError, w2)"
    and "assets_file w2 = Some (sold mp q a)" and "transactions_file w2 = transactions_file w"
    using processPurchase_unlogged [OF assms(2) assms(7-13), of ?ip amb]
    by (cases "processPurchase (JStr (name mp)) q ?ip amb w") auto
  then have "fst (buy req amb w) = Response 500 (ErrorBody MsgServerError)
       \<and> assets_file (snd (buy req amb w)) = Some (sold mp q a)
       \<and> transactions_file (snd (buy req amb w)) = transactions_file w"
    using assms(1,3-6) by (simp add: buy_def)
  moreover have "find (\<lambda>item. item_product item = name mp) (inventory (sold mp q a)) =
           Some (it\<lparr>item_qty := item_qty it - q\<rparr>)"
    by (rule find_sold [OF assms(9)])
  moreover have "capitalYen (sold mp q a) = capitalYen a + priceYen mp * q"
    by (simp add: sold_def)
  ultimately show ?thesis by simp
qed

text \<open>The juice store with a transaction log that cannot be written, 5 units asked.\<close>

theorem unlogged_purchase_stays_committed_witness:
  "fst (buy (juice_request 5) noon
          (juice_store\<lparr>write_fails := (\<lambda>p. p = TRANSACTIONS_FILE)\<rparr>)) =
     Response 500 (ErrorBody MsgServerError)
   \<and> assets_file (snd (buy (juice_request 5) noon
        (juice_store\<lparr>write_fails := (\<lambda>p. p = TRANSACTIONS_FILE)\<rparr>))) =
       Some (juice_assets\<lparr>inventory := [\<lparr>item_product = ''juice'', item_qty = 995\<rparr>],
                           capitalYen := 100000500\<rparr>)
   \<and> transactions_file (snd (buy (juice_request 5) noon
        (juice_store\<lparr>write_fails := (\<lambda>p. p = TRANSACTIONS_FILE)\<rparr>))) = Some []"
  using unlogged_purchase_stays_committed
      [of "juice_store\<lparr>write_fails := (\<lambda>p. p = TRANSACTIONS_FILE)\<rparr>"
          juice "juice_request 5" 5 juice_assets
          "\<lparr>item_product = ''juice'', item_qty = 1000\<rparr>" noon]
    juice_find
  by (simp add: juice_store_def juice_def juice_assets_def juice_request_def sold_def
      exact_sale_def safe_integer_numeral)

subsection \<open>How the buy endpoint surfaces errors\<close>

lemma buy_not_active:
  "serverState w \<noteq> ACTIVE \<Longrightarrow> buy req amb w = (Response 503 (ErrorBody MsgNotActive), w)"
  by (simp add: buy_def)

lemma buy_malformed:
  assumes "serverState w = ACTIVE"
    and "get_prop (req_body req) ''product'' = Inr p"
    and "get_prop (req_body req) ''qty'' = Inr v"
    and "\<not> truthy p \<or> \<not> truthy v \<or> \<not> positive_number v"
  shows "status_code (fst (buy req amb w)) = 400 \<and> snd (buy req amb w) = w"
  using assms by (auto simp add: buy_def positive_number_def split: jsval.splits)

lemma updateAssets_conflict:
  assumes "fst (updateAssets f w) = Inl e" and "e = ProductMismatch \<or> e = InsufficientInventory"
  shows "ledger_untouched w (snd (updateAssets f w))"
  using assms
  by (auto simp add: updateAssets_def openSync_wx_def updateAssets_body_def loadAssets_def
      readJSON_assets_def writeJSON_assets_def unlinkSync_def log_op_def ledger_untouched_def
      split: option.splits sum.splits if_splits)

lemma processPurchase_conflict:
  assumes "fst (processPurchase p q ip amb w) = Inl e"
    and "e = ProductMismatch \<or> e = InsufficientInventory"
  shows "ledger_untouched w (snd (processPurchase p q ip amb w))"
proof (cases "myProduct w")
  case None
  then show ?thesis by (simp add: processPurchase_def ledger_untouched_def)
next
  case (Some mp)
  show ?thesis
  proof (cases "p = JStr (name mp)")
    case False
    then show ?thesis using Some by (simp add: processPurchase_def ledger_untouched_def)
  next
    case True
    obtain r w1 where ua: "updateAssets (purchase_update mp p q) w = (r, w1)"
      by (cases "updateAssets (purchase_update mp p q) w")
    show ?thesis
    proof (cases r)
      case (Inl e')
      then have "fst (updateAssets (purchase_update mp p q) w) = Inl e"
        and "snd (processPurchase p q ip amb w) = w1"
        using assms(1) Some True ua by (simp_all add: processPurchase_def)
      then show ?thesis
        using updateAssets_conflict [of "purchase_update mp p q" w e, OF _ assms(2)] ua by simp
    next
      case (Inr a')
      obtain r2 w2 where rt: "recordTransaction
                         \<lparr>tx_tradeId = TradeId (dateNow amb) (randomSuffix amb),
                          tx_buyer = ip, tx_seller = myIpAddress w1,
                          tx_product = p, tx_qty = q,
                          tx_price = priceYen mp\<rparr> amb w1 = (r2, w2)"
        by (cases "recordTransaction
                         \<lparr>tx_tradeId = TradeId (dateNow amb) (randomSuffix amb),
                          tx_buyer = ip, tx_seller = myIpAddress w1,
                          tx_product = p, tx_qty = q,
                          tx_price = priceYen mp\<rparr> amb w1")
      have "r2 = Inl e"
        using assms(1) Some True ua Inr rt by (simp add: processPurchase_def split: sum.splits)
      then have False using rt assms(2)
        by (auto simp add: recordTransaction_def loadTransactions_def readJSON_transactions_def
            writeJSON_transactions_def split: option.splits if_splits)
      then show ?thesis ..
    qed
  qed
qed


lemma buy_conflict:
  assumes "serverState w = ACTIVE"
    and "get_prop (req_body req) ''product'' = Inr p"
    and "get_prop (req_body req) ''qty'' = Inr (JNum q)"
    and "truthy p" and "0 < q"
    and "fst (processPurchase p q (replace_first ''::ffff:'' [] (req_ip req)) amb w) = Inl e"
    and "e = ProductMismatch \<or> e = InsufficientInventory"
  shows "fst (buy req amb w) = Response 409 (ErrorBody (MsgOfError e))
       \<and> ledger_untouched w (snd (buy req amb w))"
proof -
  let ?pp = "processPurchase p q (replace_first ''::ffff:'' [] (req_ip req)) amb w"
  have "buy req amb w = (Response 409 (ErrorBody (MsgOfError e)), snd ?pp)"
    using assms by (cases ?pp) (auto simp add: buy_def)
  then show ?thesis using processPurchase_conflict [OF assms(6,7)] by simp
qed

lemma buy_lock_held:
  assumes "serverState w = ACTIVE"
    and "get_prop (req_body req) ''product'' = Inr p"
    and "get_prop (req_body req) ''qty'' = Inr (JNum q)"
    and "truthy p" and "0 < q"
    and "myProduct w = Some mp" and "p = JStr (name mp)"
    and "lock_file w"
  shows "buy req amb w =
           (Response 500 (ErrorBody MsgServerError), w\<lparr>trace := trace w @ [OpenLock]\<rparr>)"
  using assms
  by (simp add: buy_def processPurchase_def updateAssets_def openSync_wx_def log_op_def)

text \<open>
  Claim C3 fails for lock contention: the inner \<open>catch\<close> of the endpoint answers 409 for the
  two messages of ProductMismatch and InsufficientInventory only, and the error of a held
  lock goes to the outer \<open>catch\<close>, which answers 500.
\<close>

theorem lock_contention_is_server_error:
  "fst (buy (juice_request 5) noon (juice_store\<lparr>lock_file := True\<rparr>)) =
     Response 500 (ErrorBody MsgServerError)
   \<and> status_code (fst (buy (juice_request 5) noon (juice_store\<lparr>lock_file := True\<rparr>))) \<noteq> 409"
  by (simp add: buy_def juice_request_def juice_store_def juice_def processPurchase_def
      updateAssets_def openSync_wx_def log_op_def)

text \<open>
  Claim C3, amended. (1) A store that is not active answers 503 and (2) an active store
  answers 400 to a request whose product is missing or whose quantity is missing, not a
  number or not positive; in both cases the store is exactly what it was, with no file
  operation attempted, so before any attempt on the lock. (3) A well-formed buy whose purchase
  fails with ProductMismatch or InsufficientInventory is answered 409 with the error's
  message, and the server state, product, lock, transaction log and ledger are unchanged.
  (4) A well-formed buy of the store's product that finds the lock held is answered 500 with
  the generic server-error body; the store is unchanged but for the recorded attempt on the
  lock.
\<close>

theorem buy_error_surfacing:
  "(serverState w \<noteq> ACTIVE \<longrightarrow>
      buy req amb w = (Response 503 (ErrorBody MsgNotActive), w))
   \<and> (serverState w = ACTIVE \<and> get_prop (req_body req) ''product'' = Inr p
        \<and> get_prop (req_body req) ''qty'' = Inr v
        \<and> (\<not> truthy p \<or> \<not> truthy v \<or> \<not> positive_number v) \<longrightarrow>
      status_code (fst (buy req amb w)) = 400 \<and> snd (buy req amb w) = w)
   \<and> (serverState w = ACTIVE \<and> get_prop (req_body req) ''product'' = Inr p
        \<and> get_prop (req_body req) ''qty'' = Inr (JNum q) \<and> truthy p \<and> 0 < q
        \<and> fst (processPurchase p q (replace_first ''::ffff:'' [] (req_ip req)) amb w) = Inl e
        \<and> (e = ProductMismatch \<or> e = InsufficientInventory) \<longrightarrow>
      fst (buy req amb w) = Response 409 (ErrorBody (MsgOfError e))
      \<and> ledger_untouched w (snd (buy req amb w)))
   \<and> (serverState w = ACTIVE \<and> get_prop (req_body req) ''product'' = Inr p
        \<and> get_prop (req_body req) ''qty'' = Inr (JNum q) \<and> truthy p \<and> 0 < q
        \<and> myProduct w = Some mp \<and> p = JStr (name mp) \<and> lock_file w \<longrightarrow>
      buy req amb w =
        (Response 500 (ErrorBody MsgServerError), w\<lparr>trace := trace w @ [OpenLock]\<rparr>))"
  using buy_not_active [of w req amb] buy_malformed [of w req p v amb]
    buy_conflict [of w req p q amb e] buy_lock_held [of w req p q mp amb]
  by blast

text \<open>
  The four cases at the juice store: a store still CONFIGURED; a request without a product;
  a request for tea and a request for 2000 units; a request while the lock is held.
\<close>

theorem buy_error_surfacing_witness:
  "buy (juice_request 5) noon (juice_store\<lparr>serverState := CONFIGURED\<rparr>) =
     (Response 503 (ErrorBody MsgNotActive), juice_store\<lparr>serverState := CONFIGURED\<rparr>)
   \<and> (status_code (fst (buy \<lparr>req_body = JObj [(''qty'', JNum 5)], req_ip = ''10.0.0.2''\<rparr>
          noon juice_store)) = 400
      \<and> snd (buy \<lparr>req_body = JObj [(''qty'', JNum 5)], req_ip = ''10.0.0.2''\<rparr>
          noon juice_store) = juice_store)
   \<and> (fst (buy \<lparr>req_body = JObj [(''product'', JStr ''tea''), (''qty'', JNum 5)],
               req_ip = ''10.0.0.2''\<rparr> noon juice_store) =
        Response 409 (ErrorBody (MsgOfError ProductMismatch))
      \<and> ledger_untouched juice_store
          (snd (buy \<lparr>req_body = JObj [(''product'', JStr ''tea''), (''qty'', JNum 5)],
                    req_ip = ''10.0.0.2''\<rparr> noon juice_store)))
   \<and> (fst (buy (juice_request 2000) noon juice_store) =
        Response 409 (ErrorBody (MsgOfError InsufficientInventory))
      \<and> ledger_untouched juice_store (snd (buy (juice_request 2000) noon juice_store)))
   \<and> buy (juice_request 5) noon (juice_store\<lparr>lock_file := True\<rparr>) =
       (Response 500 (ErrorBody MsgServerError),
        juice_store\<lparr>lock_file := True, trace := [OpenLock]\<rparr>)"
  using
    buy_error_surfacing [of "juice_store\<lparr>serverState := CONFIGURED\<rparr>" "juice_request 5" noon]
    buy_error_surfacing [of juice_store
      "\<lparr>req_body = JObj [(''qty'', JNum 5)], req_ip = ''10.0.0.2''\<rparr>" noon
      JUndefined "JNum 5"]
    buy_error_surfacing [of juice_store
      "\<lparr>req_body = JObj [(''product'', JStr ''tea''), (''qty'', JNum 5)],
        req_ip = ''10.0.0.2''\<rparr>" noon "JStr ''tea''" "JNum 5" 5 ProductMismatch]
    buy_error_surfacing [of juice_store "juice_request 2000" noon "JStr ''juice''" "JNum 2000"
      2000 InsufficientInventory]
    buy_error_surfacing [of "juice_store\<lparr>lock_file := True\<rparr>" "juice_request 5" noon
      "JStr ''juice''" "JNum 5" 5 _ juice]
  by (simp add: buy_def juice_request_def juice_store_def juice_def juice_assets_def
      processPurchase_def updateAssets_def openSync_wx_def updateAssets_body_def loadAssets_def
      readJSON_assets_def writeJSON_assets_def unlinkSync_def log_op_def purchase_update_def
      ledger_untouched_def positive_number_def)

subsection \<open>Quantities that are not integers\<close>

text \<open>
  Claim C4. The endpoint checks that the quantity is a number and positive, and its error
  text says that the quantity must be a positive integer; a quantity of 2.5 passes both
  checks. At the juice store the request is answered 200 with a total price of 250, and the
  ledger is saved with 997.5 units in stock; all three results are exact in doubles. (That a missing product and a quantity that is
  missing, not a number or not positive are answered 400 with no file operation is
  \<open>buy_malformed\<close>.)
\<close>

lemma sale_of_half_units:
  "js_mul 100 (5 / 2) = 250" "js_sub 1000 (5 / 2) = 1995 / 2" "js_add 100000000 250 = 100000250"
  by code_simp+

theorem buy_accepts_fractional_quantity:
  "fst (buy (juice_request (5 / 2)) noon juice_store) =
     Response 200 (PurchaseBody
       \<lparr>success = True, res_tradeId = TradeId 1700000000000 42,
        res_product = JStr ''juice'', res_qty = 5 / 2, totalPrice = 250\<rparr>)
   \<and> assets_file (snd (buy (juice_request (5 / 2)) noon juice_store)) =
       Some (juice_assets\<lparr>inventory := [\<lparr>item_product = ''juice'', item_qty = 1995 / 2\<rparr>],
                           capitalYen := 100000250\<rparr>)"
  by (simp add: buy_def juice_request_def juice_store_def juice_def juice_assets_def noon_def
      processPurchase_def updateAssets_def openSync_wx_def updateAssets_body_def loadAssets_def
      readJSON_assets_def writeJSON_assets_def unlinkSync_def log_op_def purchase_update_def
      recordTransaction_def loadTransactions_def readJSON_transactions_def
      writeJSON_transactions_def sale_of_half_units)

text \<open>The answer to the request for 2.5 units is 200, not the 400 of a malformed request.\<close>

theorem buy_accepts_fractional_quantity_witness:
  "status_code (fst (buy (juice_request (5 / 2)) noon juice_store)) = 200
   \<and> status_code (fst (buy (juice_request (5 / 2)) noon juice_store)) \<noteq> 400"
  using buy_accepts_fractional_quantity by simp

section \<open>Properties of the registry\<close>

subsection \<open>Auxiliary facts\<close>

lemma checkServerHealth_iff: "checkServerHealth outcome \<longleftrightarrow> outcome = HttpStatus 200"
  by (cases outcome) (auto simp add: checkServerHealth_def axios_get_def)

lemma loadMarkets_eq:
  "loadMarkets r = (current_markets r, r\<lparr>reg_trace := reg_trace r @ [ReadMarkets]\<rparr>)"
  by (simp add: loadMarkets_def current_markets_def)

lemma validate_items_to_entries:
  "validate_items items = Inr True \<Longrightarrow> to_entries items = Inr (map entry_of items)"
proof (induction items)
  case Nil
  then show ?case by simp
next
  case (Cons item rest)
  then show ?case
    by (auto simp add: entry_of_def prop_or_undefined_def
        split: sum.splits if_splits jsval.splits)
qed



lemma register_ok:
  assumes "get_prop body ''ip'' = Inr ip" and "get_prop body ''port'' = Inr port"
    and "get_prop body ''products'' = Inr (JArr items)"
    and "truthy ip" and "truthy port" and "items \<noteq> []"
    and "validate_items items = Inr True"
    and "make_address numstr ip port = Inr addr"
    and "\<not> markets_write_fails r"
  shows "register numstr body now now' r =
     (RegResponse 200 RegDone,
      r\<lparr>markets_file := Some (upsert addr
           (registered (map entry_of items) addr None now)
           (registered (map entry_of items) addr (Some now) now')
           (current_markets r)),
        reg_trace := reg_trace r @ [ReadMarkets, WriteMarkets]\<rparr>)"
  using assms
  by (simp add: register_def loadMarkets_eq validate_items_to_entries saveMarkets_def
      registered_def)


lemma register_address_throws:
  assumes "get_prop body ''ip'' = Inr ip" and "get_prop body ''port'' = Inr port"
    and "get_prop body ''products'' = Inr (JArr items)"
    and "truthy ip" and "truthy port" and "items \<noteq> []"
    and "validate_items items = Inr True"
    and "make_address numstr ip port = Inl e"
  shows "fst (register numstr body now now' r) = RegResponse 500 RegServerError
       \<and> markets_file (snd (register numstr body now now' r)) = markets_file r"
  using assms by (simp add: register_def loadMarkets_eq)

lemma make_address_strings:
  "make_address numstr (JStr s) (JStr t) = Inr (s @ '':'' @ t)"
  "make_address numstr (JStr s) (JNum x) = Inr (s @ '':'' @ numstr x)"
  "make_address numstr (JNum y) (JStr t) = Inr (numstr y @ '':'' @ t)"
  "make_address numstr (JNum y) (JNum x) = Inr (numstr y @ '':'' @ numstr x)"
  by (simp_all add: make_address_def)

lemma findIndex_None: "findIndex P xs = None \<longleftrightarrow> (\<forall>x \<in> set xs. \<not> P x)"
  by (induction xs) auto

lemma findIndex_Some:
  "findIndex P xs = Some i \<Longrightarrow> i < length xs \<and> P (xs ! i) \<and> (\<forall>j < i. \<not> P (xs ! j))"
proof (induction xs arbitrary: i)
  case Nil
  then show ?case by simp
next
  case (Cons x xs)
  show ?case
  proof (cases "P x")
    case True
    then show ?thesis using Cons.prems by simp
  next
    case False
    then obtain j where j: "findIndex P xs = Some j" "i = Suc j"
      using Cons.prems by auto
    from Cons.IH [OF j(1)] False j(2) show ?thesis
      by (auto simp add: nth_Cons split: nat.splits)
  qed
qed

lemma update_found:
  assumes "findIndex (\<lambda>m. address m = a) ms = Some i"
    and "address u = a" and "distinct (map address ms)"
  shows "filter (\<lambda>m. address m = a) (ms[i := u]) = [u]
       \<and> filter (\<lambda>m. address m \<noteq> a) (ms[i := u]) = filter (\<lambda>m. address m \<noteq> a) ms
       \<and> map address (ms[i := u]) = map address ms"
  using assms
proof (induction ms arbitrary: i)
  case Nil
  then show ?case by simp
next
  case (Cons x xs)
  show ?case
  proof (cases "address x = a")
    case True
    then have "i = 0" using Cons.prems(1) by simp
    moreover have "a \<notin> address ` set xs"
      using Cons.prems(3) True by auto
    then have "filter (\<lambda>m. address m = a) xs = []"
      unfolding filter_empty_conv by blast
    ultimately show ?thesis using True Cons.prems(2) by simp
  next
    case False
    then obtain j where j: "findIndex (\<lambda>m. address m = a) xs = Some j" "i = Suc j"
      using Cons.prems(1) by auto
    from Cons.IH [OF j(1) Cons.prems(2)] Cons.prems(3) False j(2) show ?thesis by simp
  qed
qed

lemma upsert_spec:
  assumes "address u = a" and "address n = a" and "distinct (map address ms)"
  shows "distinct (map address (upsert a u n ms))
       \<and> filter (\<lambda>m. address m \<noteq> a) (upsert a u n ms) = filter (\<lambda>m. address m \<noteq> a) ms
       \<and> (a \<in> address ` set ms \<longrightarrow>
            filter (\<lambda>m. address m = a) (upsert a u n ms) = [u]
            \<and> map address (upsert a u n ms) = map address ms)
       \<and> (a \<notin> address ` set ms \<longrightarrow> upsert a u n ms = ms @ [n])"
proof (cases "findIndex (\<lambda>m. address m = a) ms")
  case None
  then have "a \<notin> address ` set ms" by (auto simp add: findIndex_None)
  moreover have "upsert a u n ms = ms @ [n]" using None by (simp add: upsert_def)
  moreover have "filter (\<lambda>m. address m \<noteq> a) ms = ms"
    using \<open>a \<notin> address ` set ms\<close> by (auto simp add: filter_id_conv)
  ultimately show ?thesis using assms by auto
next
  case (Some i)
  then have "a \<in> address ` set ms" using findIndex_Some [OF Some] by force
  moreover have "upsert a u n ms = ms[i := u]" using Some by (simp add: upsert_def)
  ultimately show ?thesis using update_found [OF Some assms(1,3)] assms(3) by simp
qed

subsection \<open>Health sweep\<close>

text \<open>
  Claim C7. A sweep reads the directory once and then saves it once, and does nothing else
  with the file. When the save succeeds the directory holds as many records as before, and
  its \<open>i\<close>-th record is the \<open>i\<close>-th record of before with the status ONLINE if its probe was
  answered with status 200, and OFFLINE for any other status, a timeout or a connection
  failure; every other field is as before. When the save fails the directory file is as
  before, so the statuses of a sweep are persisted all together or not at all.
\<close>

theorem health_sweep:
  "reg_trace (performHealthChecks net r) = reg_trace r @ [ReadMarkets, WriteMarkets]
   \<and> (markets_write_fails r \<longrightarrow> markets_file (performHealthChecks net r) = markets_file r)
   \<and> (\<not> markets_write_fails r \<longrightarrow>
        (\<exists>ms'. markets_file (performHealthChecks net r) = Some ms'
           \<and> length ms' = length (current_markets r)
           \<and> (\<forall>i < length (current_markets r).
                 ms' ! i = (current_markets r ! i)
                   \<lparr>status := Some (probed_status (net i (address (current_markets r ! i))))\<rparr>)))"
  by (simp add: performHealthChecks_def loadMarkets_eq saveMarkets_def nth_enumerate_eq
      checkServerHealth_iff probed_status_def)

text \<open>
  Two shops, the first marked OFFLINE and answering 200, the second marked ONLINE and
  answering 503; and the same sweep when the save fails.
\<close>

theorem health_sweep_witness:
  "markets_file (performHealthChecks sweep_net two_shops) =
     Some [tea_shop\<lparr>status := Some ''ONLINE''\<rparr>, rice_shop\<lparr>status := Some ''OFFLINE''\<rparr>]
   \<and> reg_trace (performHealthChecks sweep_net two_shops) = [ReadMarkets, WriteMarkets]
   \<and> markets_file (performHealthChecks sweep_net (two_shops\<lparr>markets_write_fails := True\<rparr>)) =
       Some [tea_shop, rice_shop]"
  using health_sweep [of sweep_net two_shops]
    health_sweep [of sweep_net "two_shops\<lparr>markets_write_fails := True\<rparr>"]
  by (simp add: two_shops_def tea_shop_def rice_shop_def sweep_net_def performHealthChecks_def
      loadMarkets_def saveMarkets_def checkServerHealth_def axios_get_def current_markets_def
      probed_status_def)

subsection \<open>Registration is an upsert\<close>

text \<open>
  Claim C6. Take a directory with at most one record per address and a request that the
  register endpoint accepts: truthy \<open>ip\<close> and \<open>port\<close> from which the address string \<open>addr\<close>
  is made without a throw (as it is from strings and numbers), a non-empty list of valid
  items, and a writable directory file. Then the endpoint answers 200 and the saved
  directory again has at most one record per address; exactly one record has the address
  \<open>addr\<close>, and it carries the request's catalog and the status ONLINE; the records of the
  other addresses are the ones of before, in the same order. If the address was known the
  addresses keep their positions; if it was new, the directory is the one of before with the
  new record appended.
\<close>

theorem register_upsert:
  assumes "get_prop body ''ip'' = Inr ip" and "get_prop body ''port'' = Inr port"
    and "get_prop body ''products'' = Inr (JArr items)"
    and "truthy ip" and "truthy port" and "items \<noteq> []"
    and "validate_items items = Inr True"
    and "make_address numstr ip port = Inr addr"
    and "\<not> markets_write_fails r"
    and "distinct (map address (current_markets r))"
  shows "fst (register numstr body now now' r) = RegResponse 200 RegDone
       \<and> (\<exists>ms'. markets_file (snd (register numstr body now now' r)) = Some ms'
            \<and> distinct (map address ms')
            \<and> (\<exists>created updated.
                  filter (\<lambda>m. address m = addr) ms' =
                    [\<lparr>products = Some (map entry_of items), legacy_product = None,
                      legacy_price = None, address = addr,
                      status = Some ''ONLINE'', createdAt = created,
                      updatedAt = Some updated\<rparr>])
            \<and> filter (\<lambda>m. address m \<noteq> addr) ms' =
                filter (\<lambda>m. address m \<noteq> addr) (current_markets r)
            \<and> (addr \<in> address ` set (current_markets r) \<longrightarrow>
                  map address ms' = map address (current_markets r))
            \<and> (addr \<notin> address ` set (current_markets r) \<longrightarrow>
                  ms' = current_markets r @
                    [\<lparr>products = Some (map entry_of items), legacy_product = None,
                      legacy_price = None, address = addr,
                      status = Some ''ONLINE'', createdAt = Some now,
                      updatedAt = Some now'\<rparr>]))"
proof -
  let ?u = "registered (map entry_of items) addr None now"
  let ?n = "registered (map entry_of items) addr (Some now) now'"
  let ?ms = "current_markets r"
  have au: "address ?u = addr" and an: "address ?n = addr" by (simp_all add: registered_def)
  note up = upsert_spec [OF au an assms(10)]
  have run: "register numstr body now now' r =
     (RegResponse 200 RegDone,
      r\<lparr>markets_file := Some (upsert addr ?u ?n ?ms),
        reg_trace := reg_trace r @ [ReadMarkets, WriteMarkets]\<rparr>)"
    by (rule register_ok [OF assms(1-9)])
  have one: "\<exists>created updated. filter (\<lambda>m. address m = addr) (upsert addr ?u ?n ?ms) =
                    [\<lparr>products = Some (map entry_of items), legacy_product = None,
                      legacy_price = None, address = addr,
                      status = Some ''ONLINE'', createdAt = created,
                      updatedAt = Some updated\<rparr>]"
  proof (cases "addr \<in> address ` set ?ms")
    case True
    then have "filter (\<lambda>m. address m = addr) (upsert addr ?u ?n ?ms) = [?u]" using up by simp
    then show ?thesis unfolding registered_def by blast
  next
    case False
    then have "upsert addr ?u ?n ?ms = ?ms @ [?n]" using up by simp
    moreover have "filter (\<lambda>m. address m = addr) ?ms = []"
      using False by (auto simp add: filter_empty_conv image_iff)
    ultimately have "filter (\<lambda>m. address m = addr) (upsert addr ?u ?n ?ms) = [?n]"
      using an by simp
    then show ?thesis unfolding registered_def by blast
  qed
  have "distinct (map address (upsert addr ?u ?n ?ms))
      \<and> filter (\<lambda>m. address m \<noteq> addr) (upsert addr ?u ?n ?ms) =
          filter (\<lambda>m. address m \<noteq> addr) ?ms
      \<and> (addr \<in> address ` set ?ms \<longrightarrow> map address (upsert addr ?u ?n ?ms) = map address ?ms)
      \<and> (addr \<notin> address ` set ?ms \<longrightarrow> upsert addr ?u ?n ?ms = ?ms @
            [\<lparr>products = Some (map entry_of items), legacy_product = None,
                      legacy_price = None, address = addr,
                      status = Some ''ONLINE'', createdAt = Some now,
                      updatedAt = Some now'\<rparr>])"
    using up by (simp add: registered_def)
  then show ?thesis using run one by simp
qed

text \<open>The shop at 10.0.0.1:9000 registers juice in place of tea.\<close>

theorem register_upsert_witness:
  "fst (register (\<lambda>_. []) multi_request ''day3'' ''day4'' two_shops) = RegResponse 200 RegDone
   \<and> markets_file (snd (register (\<lambda>_. []) multi_request ''day3'' ''day4'' two_shops)) =
       Some [\<lparr>products = Some [\<lparr>entry_product = JStr ''juice'', entry_price = JNum 100\<rparr>],
               legacy_product = None, legacy_price = None, address = ''10.0.0.1:9000'',
               status = Some ''ONLINE'', createdAt = None, updatedAt = Some ''day3''\<rparr>,
             rice_shop]"
  using register_upsert [where body = multi_request and ip = "JStr ''10.0.0.1''"
      and port = "JStr ''9000''"
      and items = "[JObj [(''product'', JStr ''juice''), (''priceYen'', JNum 100)]]"
      and r = two_shops and numstr = "\<lambda>_. []" and addr = "''10.0.0.1:9000''"
      and now = "''day3''" and now' = "''day4''"]
  by (simp add: multi_request_def two_shops_def tea_shop_def rice_shop_def current_markets_def
      register_def loadMarkets_def saveMarkets_def upsert_def make_address_def)

subsection \<open>Re-registration drops createdAt\<close>

text \<open>
  Claim C9. For a request that the register endpoint accepts (truthy \<open>ip\<close> and \<open>port\<close> from
  which the address string \<open>addr\<close> is made without a throw, a non-empty list of valid items),
  with the directory file writable: if the address is found in the directory at index \<open>i\<close>,
  the record at \<open>i\<close> is replaced by the record that has the catalog, the address, the status
  ONLINE and \<open>updatedAt\<close>, and no \<open>createdAt\<close>, whatever the record had before; if the
  address is not found, the appended record has \<open>createdAt\<close> set.
\<close>

theorem reregister_drops_createdAt:
  assumes "get_prop body ''ip'' = Inr ip" and "get_prop body ''port'' = Inr port"
    and "get_prop body ''products'' = Inr (JArr items)"
    and "truthy ip" and "truthy port" and "items \<noteq> []"
    and "validate_items items = Inr True"
    and "make_address numstr ip port = Inr addr"
    and "\<not> markets_write_fails r"
  shows "(findIndex (\<lambda>m. address m = addr) (current_markets r) = Some i
            \<longrightarrow> i < length (current_markets r)
              \<and> markets_file (snd (register numstr body now now' r)) =
                  Some ((current_markets r)
                    [i := \<lparr>products = Some (map entry_of items), legacy_product = None,
                           legacy_price = None, address = addr,
                           status = Some ''ONLINE'', createdAt = None,
                           updatedAt = Some now\<rparr>])
              \<and> createdAt (the (markets_file (snd (register numstr body now now' r))) ! i) =
                  None)
       \<and> (findIndex (\<lambda>m. address m = addr) (current_markets r) = None
            \<longrightarrow> markets_file (snd (register numstr body now now' r)) =
                  Some (current_markets r @
                    [\<lparr>products = Some (map entry_of items), legacy_product = None,
                      legacy_price = None, address = addr,
                      status = Some ''ONLINE'', createdAt = Some now,
                      updatedAt = Some now'\<rparr>]))"
proof -
  have run: "register numstr body now now' r =
     (RegResponse 200 RegDone,
      r\<lparr>markets_file := Some (upsert addr
           (registered (map entry_of items) addr None now)
           (registered (map entry_of items) addr (Some now) now')
           (current_markets r)),
        reg_trace := reg_trace r @ [ReadMarkets, WriteMarkets]\<rparr>)"
    by (rule register_ok [OF assms(1-9)])
  show ?thesis
  proof (cases "findIndex (\<lambda>m. address m = addr) (current_markets r)")
    case None
    then show ?thesis using run by (simp add: upsert_def registered_def)
  next
    case (Some j)
    then have "j < length (current_markets r)" using findIndex_Some [OF Some] by simp
    then show ?thesis using run Some by (auto simp add: upsert_def registered_def)
  qed
qed

text \<open>
  The shop at 10.0.0.1:9000, created on day 1, registers again; and the same request at a
  registry without a directory file.
\<close>

theorem reregister_drops_createdAt_witness:
  "createdAt (the (markets_file two_shops) ! 0) = Some ''day1''
   \<and> the (markets_file (snd (register (\<lambda>_. []) multi_request ''day3'' ''day4'' two_shops))) ! 0 =
       \<lparr>products = Some [\<lparr>entry_product = JStr ''juice'', entry_price = JNum 100\<rparr>],
        legacy_product = None, legacy_price = None, address = ''10.0.0.1:9000'',
        status = Some ''ONLINE'', createdAt = None, updatedAt = Some ''day3''\<rparr>
   \<and> markets_file (snd (register (\<lambda>_. []) multi_request ''day3'' ''day4'' empty_registry)) =
       Some [\<lparr>products = Some [\<lparr>entry_product = JStr ''juice'', entry_price = JNum 100\<rparr>],
               legacy_product = None, legacy_price = None, address = ''10.0.0.1:9000'',
               status = Some ''ONLINE'', createdAt = Some ''day3'',
               updatedAt = Some ''day4''\<rparr>]"
  using reregister_drops_createdAt [where body = multi_request and ip = "JStr ''10.0.0.1''"
      and port = "JStr ''9000''"
      and items = "[JObj [(''product'', JStr ''juice''), (''priceYen'', JNum 100)]]"
      and r = two_shops and numstr = "\<lambda>_. []" and addr = "''10.0.0.1:9000''" and i = 0
      and now = "''day3''" and now' = "''day4''"]
    reregister_drops_createdAt [where body = multi_request and ip = "JStr ''10.0.0.1''"
      and port = "JStr ''9000''"
      and items = "[JObj [(''product'', JStr ''juice''), (''priceYen'', JNum 100)]]"
      and r = empty_registry and numstr = "\<lambda>_. []" and addr = "''10.0.0.1:9000''" and i = 0
      and now = "''day3''" and now' = "''day4''"]
  by (simp add: multi_request_def two_shops_def tea_shop_def rice_shop_def current_markets_def
      empty_registry_def register_def loadMarkets_def saveMarkets_def upsert_def
      make_address_def)

subsection \<open>Request shapes\<close>










end
